theory Spec2Isabelle
  imports Complex_Main
begin

section \<open>Strings\<close>

text \<open>
  Go strings are modelled as \<open>string\<close> (a list of 8-bit characters). Field and column
  names are taken to be ASCII, so a rune of the source is one character here.
\<close>

definition IsUpper :: "char \<Rightarrow> bool" where
  \<comment> \<open>\<open>unicode.IsUpper\<close> on ASCII: the letters A to Z.\<close>
  "IsUpper r = (65 \<le> (of_char r :: nat) \<and> (of_char r :: nat) \<le> 90)"

definition ToLower :: "char \<Rightarrow> char" where
  \<comment> \<open>\<open>unicode.ToLower\<close> on ASCII: A to Z move to a to z (adding 32 sets the bit of
      value 32, which is clear in A to Z), every other rune stays.\<close>
  "ToLower r =
     (if IsUpper r
      then (case r of Char b0 b1 b2 b3 b4 b5 b6 b7 \<Rightarrow> Char b0 b1 b2 b3 b4 True b6 b7)
      else r)"

fun Join :: "string list \<Rightarrow> string \<Rightarrow> string" where
  \<comment> \<open>\<open>strings.Join\<close>\<close>
  "Join [] sep = []"
| "Join [x] sep = x"
| "Join (x # y # ys) sep = x @ sep @ Join (y # ys) sep"

fun HasPrefix :: "string \<Rightarrow> string \<Rightarrow> bool" where
  "HasPrefix s [] = True"
| "HasPrefix [] (p # ps) = False"
| "HasPrefix (c # cs) (p # ps) = (c = p \<and> HasPrefix cs ps)"

fun Contains :: "string \<Rightarrow> string \<Rightarrow> bool" where
  \<comment> \<open>\<open>strings.Contains\<close>\<close>
  "Contains [] sub = (sub = [])"
| "Contains (c # cs) sub = (HasPrefix (c # cs) sub \<or> Contains cs sub)"

section \<open>Column names: \<open>camelToSnake\<close> and its cache (sqlite.go)\<close>

text \<open>
  The loop of \<open>camelToSnake\<close>: \<open>i\<close> is the index of the rune \<open>r\<close>, \<open>result\<close> the
  \<open>strings.Builder\<close>.
\<close>

fun camelToSnake_loop :: "nat \<Rightarrow> string \<Rightarrow> string \<Rightarrow> string" where
  "camelToSnake_loop i [] result = result"
| "camelToSnake_loop i (r # rs) result =
     (if IsUpper r
      then camelToSnake_loop (i + 1) rs
             ((if i > 0 then result @ ''_'' else result) @ [ToLower r])
      else camelToSnake_loop (i + 1) rs (result @ [r]))"

type_synonym fieldNameCache = "string \<rightharpoonup> string"

definition camelToSnake :: "fieldNameCache \<Rightarrow> string \<Rightarrow> string \<times> fieldNameCache" where
  \<comment> \<open>The process-wide \<open>sync.Map\<close> is passed in and returned.\<close>
  "camelToSnake cache s =
     (case cache s of
        Some cached \<Rightarrow> (cached, cache)
      | None \<Rightarrow>
          (let snakeCase = camelToSnake_loop 0 s []
           in (snakeCase, cache(s \<mapsto> snakeCase))))"

definition cache_ok :: "fieldNameCache \<Rightarrow> bool" where
  \<comment> \<open>Every entry was stored by \<open>camelToSnake\<close>; the empty cache of a fresh process is.\<close>
  "cache_ok cache = (\<forall>s c. cache s = Some c \<longrightarrow> c = camelToSnake_loop 0 s [])"

text \<open>The rule as the specification words it, to compare with the loop.\<close>

fun spec_underscores :: "bool \<Rightarrow> string \<Rightarrow> string" where
  "spec_underscores first [] = []"
| "spec_underscores first (c # cs) =
     (if IsUpper c \<and> \<not> first then CHR ''_'' # c # spec_underscores False cs
      else c # spec_underscores False cs)"

definition spec_snake :: "string \<Rightarrow> string" where
  "spec_snake name = map ToLower (spec_underscores True name)"

section \<open>The error taxonomy (db.go)\<close>

datatype sentinel =
    ErrDatabaseConnection
  | ErrNotFound
  | ErrDuplicate
  | ErrInvalidInput
  | ErrInternal
  | ErrNotImplemented

text \<open>
  An error of the native SQL layer (\<open>database/sql\<close> and its driver): the sentinel
  \<open>sql.ErrNoRows\<close>, or any other error with its message.
\<close>

datatype sql_error = ErrNoRows | DriverError string

fun sql_Error :: "sql_error \<Rightarrow> string" where
  "sql_Error ErrNoRows = ''sql: no rows in result set''"
| "sql_Error (DriverError msg) = msg"

text \<open>
  A Go \<open>error\<close> value as the collections return it: a sentinel itself, a sentinel
  wrapped by \<open>fmt.Errorf("%w: ...")\<close> (with the rest of the message), an error made on
  the spot by \<open>errors.New\<close> or by \<open>fmt.Errorf\<close> without \<open>%w\<close>, or a native error
  passed on as it is.
\<close>

datatype error =
    Sentinel sentinel
  | Wrapped sentinel string
  | Adhoc string
  | Native sql_error

fun Is :: "error \<Rightarrow> sentinel \<Rightarrow> bool" where
  \<comment> \<open>\<open>errors.Is\<close>\<close>
  "Is (Sentinel s) t = (s = t)"
| "Is (Wrapped s msg) t = (s = t)"
| "Is (Adhoc msg) t = False"
| "Is (Native e) t = False"

definition taxonomy :: "sentinel list" where
  "taxonomy = [ErrNotFound, ErrDuplicate, ErrInvalidInput, ErrInternal, ErrDatabaseConnection]"

definition taxonomy_kinds :: "error \<Rightarrow> sentinel list" where
  "taxonomy_kinds e = filter (Is e) taxonomy"

section \<open>Go values seen through reflection\<close>

text \<open>
  A \<open>time.Time\<close>: the instant and the location it carries. \<open>Tm 0 0\<close> is the zero value
  \<open>time.Time{}\<close>; \<open>IsZero\<close> looks at the instant only.
\<close>

datatype tm = Tm (instant: int) (loc: nat)

text \<open>
  The values a record, a field, a filter entry or an output parameter can hold, by
  \<open>reflect.Kind\<close>: strings, signed and unsigned integers (at 64 bits), floats (by their
  numeric value), booleans, \<open>time.Time\<close>, pointers (\<open>None\<close> is nil), slices (with the
  zero value of the element type standing for that type; \<open>None\<close> is the nil slice) and
  structs. A struct is the list of its exported fields in declaration order, each with
  its name, its \<open>db\<close> tag, its \<open>firestore\<close> tag and its value.
\<close>

datatype gval =
    VString string
  | VInt int
  | VUint nat
  | VFloat rat
  | VBool bool
  | VTime tm
  | VPtr "gval option"
  | VSlice gval "gval list option"
  | VStruct "field list"
and field = Field (Name: string) (db_tag: string) (firestore_tag: string) (Val: gval)

fun Zero :: "gval \<Rightarrow> gval" and Zero_field :: "field \<Rightarrow> field" where
  \<comment> \<open>\<open>reflect.Zero(reflect.TypeOf(x)).Interface()\<close>\<close>
  "Zero (VString s) = VString []"
| "Zero (VInt i) = VInt 0"
| "Zero (VUint u) = VUint 0"
| "Zero (VFloat x) = VFloat 0"
| "Zero (VBool b) = VBool False"
| "Zero (VTime t) = VTime (Tm 0 0)"
| "Zero (VPtr p) = VPtr None"
| "Zero (VSlice elem xs) = VSlice elem None"
| "Zero (VStruct fs) = VStruct (map Zero_field fs)"
| "Zero_field (Field n d f v) = Field n d f (Zero v)"

definition isZeroOfUnderlyingType :: "gval \<Rightarrow> bool" where
  \<comment> \<open>\<open>reflect.DeepEqual\<close> of two values of one type is equality of the model values.\<close>
  "isZeroOfUnderlyingType x = (x = Zero x)"

definition Indirect :: "gval \<Rightarrow> gval option" where
  \<comment> \<open>\<open>v := reflect.ValueOf(data); if v.Kind() == reflect.Ptr { v = v.Elem() }\<close>:
      the element of a nil pointer is the invalid value.\<close>
  "Indirect data = (case data of VPtr None \<Rightarrow> None | VPtr (Some x) \<Rightarrow> Some x | _ \<Rightarrow> Some data)"

section \<open>The field mapper (sqlite.go)\<close>

definition columnName :: "field \<Rightarrow> string" where
  \<comment> \<open>\<open>columnName := field.Tag.Get("db"); if columnName == "" { columnName =
      camelToSnake(field.Name) }\<close>. The cache only memoises the loop (lemma
      \<open>camelToSnake_cached\<close>), so the loop is called here.\<close>
  "columnName f = (if db_tag f = [] then camelToSnake_loop 0 (Name f) [] else db_tag f)"

fun extractFieldsForInsert_loop ::
  "string \<Rightarrow> field list \<Rightarrow> string list \<times> string list \<times> gval list \<times> string
     \<Rightarrow> string list \<times> string list \<times> gval list \<times> string" where
  "extractFieldsForInsert_loop primaryKey [] acc = acc"
| "extractFieldsForInsert_loop primaryKey (f # fs) (columns, placeholders, vals, ident) =
     (if isZeroOfUnderlyingType (Val f)
      then extractFieldsForInsert_loop primaryKey fs (columns, placeholders, vals, ident)
      else
        extractFieldsForInsert_loop primaryKey fs
          (columns @ [columnName f], placeholders @ [''?''], vals @ [Val f],
           (if columnName f = primaryKey
            then (case Val f of VString str \<Rightarrow> str | _ \<Rightarrow> ident)
            else ident)))"

definition extractFieldsForInsert ::
  "gval \<Rightarrow> string \<Rightarrow> error + (string list \<times> string list \<times> gval list \<times> string)" where
  "extractFieldsForInsert data primaryKey =
     (case Indirect data of
        Some (VStruct fs) \<Rightarrow> Inr (extractFieldsForInsert_loop primaryKey fs ([], [], [], []))
      | _ \<Rightarrow> Inl (Wrapped ErrInvalidInput ''data must be a struct or pointer to struct''))"

fun extractFieldsForUpdate_loop ::
  "field list \<Rightarrow> string list \<times> gval list \<Rightarrow> string list \<times> gval list" where
  "extractFieldsForUpdate_loop [] acc = acc"
| "extractFieldsForUpdate_loop (f # fs) (updateFields, vals) =
     (if isZeroOfUnderlyingType (Val f)
      then extractFieldsForUpdate_loop fs (updateFields, vals)
      else if columnName f = ''id''
      then extractFieldsForUpdate_loop fs (updateFields, vals)
      else extractFieldsForUpdate_loop fs
             (updateFields @ [columnName f @ '' = ?''], vals @ [Val f]))"

definition FieldByName :: "field list \<Rightarrow> string \<Rightarrow> field option" where
  "FieldByName fs name = find (\<lambda>f. Name f = name) fs"

definition extractFieldsForUpdate ::
  "tm \<Rightarrow> gval \<Rightarrow> error + (string list \<times> gval list)" where
  \<comment> \<open>\<open>now\<close> is the value of \<open>time.Now().UTC()\<close> at the call.\<close>
  "extractFieldsForUpdate now data =
     (case Indirect data of
        Some (VStruct fs) \<Rightarrow>
          (let (updateFields, vals) = extractFieldsForUpdate_loop fs ([], [])
           in if FieldByName fs ''Updated_at'' \<noteq> None
              then Inr (updateFields @ [''updated_at = ?''], vals @ [VTime now])
              else if FieldByName fs ''UpdatedAt'' \<noteq> None
              then Inr (updateFields @ [''updated_at = ?''], vals @ [VTime now])
              else Inr (updateFields, vals))
      | _ \<Rightarrow> Inl (Wrapped ErrInvalidInput ''data must be a struct or pointer to struct''))"

fun buildWhereClause_loop ::
  "(string \<times> gval) list \<Rightarrow> string list \<times> gval list \<Rightarrow> string list \<times> gval list" where
  "buildWhereClause_loop [] acc = acc"
| "buildWhereClause_loop ((k, v) # rest) (whereClauses, vals) =
     buildWhereClause_loop rest (whereClauses @ [k @ '' = ?''], vals @ [v])"

definition buildWhereClause :: "(string \<times> gval) list \<Rightarrow> string \<times> gval list" where
  \<comment> \<open>The filter \<open>map[string]interface{}\<close> is the list of its entries in the order the
      \<open>range\<close> loop visits them.\<close>
  "buildWhereClause flt =
     (if length flt = 0 then ([], [])
      else (let (whereClauses, vals) = buildWhereClause_loop flt ([], [])
            in (Join whereClauses '' AND '', vals)))"

section \<open>The SQL connection as the relational collection uses it\<close>

text \<open>
  What \<open>rows.Scan\<close> into an \<open>interface{}\<close> cell can deliver: nil for NULL, \<open>int64\<close>,
  \<open>float64\<close>, \<open>bool\<close>, \<open>[]byte\<close>, \<open>string\<close> or \<open>time.Time\<close>.
\<close>

datatype sqlval =
    NullV
  | Int64V int
  | Float64V rat
  | BoolV bool
  | BytesV string
  | StringV string
  | TimeV tm

text \<open>
  \<open>*sql.Rows\<close>: the answer of \<open>rows.Columns()\<close>, one entry for every row that
  \<open>rows.Next()\<close> announces, holding what \<open>rows.Scan\<close> gives there, and the answer
  of \<open>rows.Err()\<close>. \<open>sql.Result\<close>: the answer of \<open>RowsAffected()\<close>.
\<close>

record sql_Rows =
  Columns :: "sql_error + string list"
  Scans :: "(sql_error + sqlval list) list"
  RowsErr :: "sql_error option"

record sql_Result =
  RowsAffected :: "sql_error + int"

text \<open>
  The engine and the libraries are outside the repository, so they are parameters: what
  the driver answers to a statement text with its arguments in a state \<open>'s\<close> of the
  stored data, the error (if any) that closing its connections gives, and what
  \<open>time.Parse(time.RFC3339, _)\<close> makes of a string.
\<close>

record 's runtime =
  drv_exec :: "'s \<Rightarrow> string \<Rightarrow> gval list \<Rightarrow> (sql_error + sql_Result) \<times> 's"
  drv_query :: "'s \<Rightarrow> string \<Rightarrow> gval list \<Rightarrow> (sql_error + sql_Rows) \<times> 's"
  drv_close :: "'s \<Rightarrow> sql_error option"
  time_Parse :: "string \<Rightarrow> tm option"

text \<open>
  \<open>*sql.DB\<close>: a handle that is open or closed, over the stored data. A closed handle
  answers every statement with the error \<open>sql: database is closed\<close> and does not
  reach the driver.
\<close>

record 's sql_DB =
  closed :: bool
  content :: 's

definition ExecContext ::
  "'s runtime \<Rightarrow> 's sql_DB \<Rightarrow> string \<Rightarrow> gval list \<Rightarrow> (sql_error + sql_Result) \<times> 's sql_DB" where
  "ExecContext rt d query args =
     (if closed d then (Inl (DriverError ''sql: database is closed''), d)
      else (let (r, st) = drv_exec rt (content d) query args in (r, d\<lparr>content := st\<rparr>)))"

definition sql_Close :: "'s runtime \<Rightarrow> 's sql_DB \<Rightarrow> sql_error option \<times> 's sql_DB" where
  \<comment> \<open>\<open>(*sql.DB).Close\<close>: a handle that is closed already answers nil; otherwise the
      handle is closed, whatever closing the connections returns.\<close>
  "sql_Close rt d =
     (if closed d then (None, d) else (drv_close rt (content d), d\<lparr>closed := True\<rparr>))"

definition QueryContext ::
  "'s runtime \<Rightarrow> 's sql_DB \<Rightarrow> string \<Rightarrow> gval list \<Rightarrow> (sql_error + sql_Rows) \<times> 's sql_DB" where
  "QueryContext rt d query args =
     (if closed d then (Inl (DriverError ''sql: database is closed''), d)
      else (let (r, st) = drv_query rt (content d) query args in (r, d\<lparr>content := st\<rparr>)))"

definition QueryRowScanInt64 ::
  "'s runtime \<Rightarrow> 's sql_DB \<Rightarrow> string \<Rightarrow> gval list \<Rightarrow> (sql_error + int) \<times> 's sql_DB" where
  \<comment> \<open>\<open>conn.QueryRowContext(ctx, query, values...).Scan(&count)\<close> with an \<open>int64\<close>
      destination: the first row, or \<open>sql.ErrNoRows\<close> when there is none.\<close>
  "QueryRowScanInt64 rt d query args =
     (case QueryContext rt d query args of
        (Inl e, d') \<Rightarrow> (Inl e, d')
      | (Inr rows, d') \<Rightarrow>
          (case Scans rows of
             [] \<Rightarrow> (Inl (case RowsErr rows of Some e \<Rightarrow> e | None \<Rightarrow> ErrNoRows), d')
           | Inl e # rest \<Rightarrow> (Inl e, d')
           | Inr [Int64V n] # rest \<Rightarrow> (Inr n, d')
           | Inr vs # rest \<Rightarrow> (Inl (DriverError ''sql: Scan error on column index 0''), d')))"

section \<open>The relational database and its collections (sqlite.go)\<close>

text \<open>
  \<open>SQLiteDatabase\<close>: the field \<open>conn\<close> is nil (\<open>None\<close>) until \<open>Connect\<close> stores a
  handle. A \<open>SQLiteCollection\<close> holds a pointer to its database, so every operation
  takes the current state of that database and returns the new one.
\<close>

record 's SQLiteDatabase =
  conn :: "'s sql_DB option"

record SQLiteCollection =
  tableName :: string
  primaryKey :: string

definition Collection :: "string \<Rightarrow> SQLiteCollection" where
  "Collection name = \<lparr>tableName = name, primaryKey = ''id''\<rparr>"

definition Close :: "'s runtime \<Rightarrow> 's SQLiteDatabase \<Rightarrow> error option \<times> 's SQLiteDatabase" where
  \<comment> \<open>\<open>if s.conn != nil { return s.conn.Close() }; return nil\<close>: the error of the
      handle is passed on as it is, and the handle stays in the field.\<close>
  "Close rt s =
     (case conn s of
        Some d \<Rightarrow> (let (err, d') = sql_Close rt d in (map_option Native err, s\<lparr>conn := Some d'\<rparr>))
      | None \<Rightarrow> (None, s))"

definition GetConn :: "'s SQLiteDatabase \<Rightarrow> string + 's sql_DB" where
  \<comment> \<open>The error is \<open>errors.New\<close> of the message on the left.\<close>
  "GetConn s =
     (case conn s of
        None \<Rightarrow> Inl ''database connection not established''
      | Some d \<Rightarrow> Inr d)"

definition exec_error :: "sql_error \<Rightarrow> error" where
  \<comment> \<open>The translation of a failed \<open>ExecContext\<close> in \<open>Create\<close> and \<open>UpdateById\<close>.\<close>
  "exec_error err =
     (if Contains (sql_Error err) ''UNIQUE constraint failed''
      then Wrapped ErrDuplicate (sql_Error err)
      else Wrapped ErrInternal (sql_Error err))"

definition Create ::
  "'s runtime \<Rightarrow> 's SQLiteDatabase \<Rightarrow> SQLiteCollection \<Rightarrow> gval
     \<Rightarrow> (error + string) \<times> 's SQLiteDatabase" where
  "Create rt s c data =
     (case GetConn s of
        Inl err \<Rightarrow> (Inl (Wrapped ErrInternal err), s)
      | Inr d \<Rightarrow>
          (case extractFieldsForInsert data (primaryKey c) of
             Inl err \<Rightarrow> (Inl err, s)
           | Inr (columns, placeholders, vals, ident) \<Rightarrow>
               (let query = ''INSERT INTO '' @ tableName c @ '' ('' @ Join columns '', ''
                              @ '') VALUES ('' @ Join placeholders '', '' @ '')''
                in case ExecContext rt d query vals of
                     (Inl err, d') \<Rightarrow> (Inl (exec_error err), s\<lparr>conn := Some d'\<rparr>)
                   | (Inr res, d') \<Rightarrow> (Inr ident, s\<lparr>conn := Some d'\<rparr>))))"

definition validateResultType :: "gval \<Rightarrow> error option" where
  "validateResultType result =
     (case result of
        VPtr (Some (VStruct fs)) \<Rightarrow> None
      | VPtr (Some x) \<Rightarrow> Some (Wrapped ErrInvalidInput ''result must be a pointer to a struct'')
      | _ \<Rightarrow> Some (Wrapped ErrInvalidInput ''result must be a non-nil pointer''))"

fun setFieldValue :: "(string \<Rightarrow> tm option) \<Rightarrow> gval \<Rightarrow> sqlval \<Rightarrow> gval" where
  "setFieldValue parse (VString s) val =
     (case val of StringV str \<Rightarrow> VString str | BytesV bytes \<Rightarrow> VString bytes | _ \<Rightarrow> VString s)"
| "setFieldValue parse (VInt i) val =
     (case val of Int64V num \<Rightarrow> VInt num | _ \<Rightarrow> VInt i)"
| "setFieldValue parse (VUint u) val =
     (case val of Int64V num \<Rightarrow> VUint (nat (num mod 2 ^ 64)) | _ \<Rightarrow> VUint u)"
| "setFieldValue parse (VFloat x) val =
     (case val of Float64V num \<Rightarrow> VFloat num | _ \<Rightarrow> VFloat x)"
| "setFieldValue parse (VBool b) val =
     (case val of BoolV b' \<Rightarrow> VBool b' | Int64V n \<Rightarrow> VBool (n \<noteq> 0) | _ \<Rightarrow> VBool b)"
| "setFieldValue parse (VTime t) val =
     (case val of
        StringV timeStr \<Rightarrow> (case parse timeStr of Some t' \<Rightarrow> VTime t' | None \<Rightarrow> VTime t)
      | BytesV timeBytes \<Rightarrow> (case parse timeBytes of Some t' \<Rightarrow> VTime t' | None \<Rightarrow> VTime t)
      | _ \<Rightarrow> VTime t)"
| "setFieldValue parse (VPtr p) val = VPtr p"
| "setFieldValue parse (VSlice elem xs) val = VSlice elem xs"
| "setFieldValue parse (VStruct fs) val = VStruct fs"

definition columnMap :: "string list \<Rightarrow> sqlval list \<Rightarrow> (string \<rightharpoonup> sqlval)" where
  \<comment> \<open>\<open>for i, column := range columns { columnMap[column] = values[i] }\<close>\<close>
  "columnMap columns vals = fold (\<lambda>(column, v) m. m(column \<mapsto> v)) (zip columns vals) Map.empty"

definition mapField :: "(string \<Rightarrow> tm option) \<Rightarrow> (string \<rightharpoonup> sqlval) \<Rightarrow> field \<Rightarrow> field" where
  \<comment> \<open>One round of the field loop of \<open>mapRowToStruct\<close>.\<close>
  "mapField parse cm f =
     (case cm (columnName f) of
        None \<Rightarrow> f
      | Some NullV \<Rightarrow> f
      | Some val \<Rightarrow> Field (Name f) (db_tag f) (firestore_tag f) (setFieldValue parse (Val f) val))"

definition mapRowToStruct ::
  "(string \<Rightarrow> tm option) \<Rightarrow> sql_error + string list \<Rightarrow> sql_error + sqlval list \<Rightarrow> field list
     \<Rightarrow> error + field list" where
  \<comment> \<open>\<open>cols\<close> and \<open>scan\<close> are what \<open>rows.Columns()\<close> and \<open>rows.Scan\<close> give at the
      current row; the result is the struct behind the pointer after the call.\<close>
  "mapRowToStruct parse cols scan fs =
     (case cols of
        Inl err \<Rightarrow> Inl (Wrapped ErrInternal (sql_Error err))
      | Inr columns \<Rightarrow>
          (case scan of
             Inl err \<Rightarrow>
               (if err = ErrNoRows then Inl (Sentinel ErrNotFound)
                else Inl (Wrapped ErrInternal (sql_Error err)))
           | Inr vals \<Rightarrow> Inr (map (mapField parse (columnMap columns vals)) fs)))"

text \<open>
  The operations that fill an output parameter return the error (\<open>None\<close> is nil), the
  value behind the parameter after the call, and the database.
\<close>

definition GetById ::
  "'s runtime \<Rightarrow> 's SQLiteDatabase \<Rightarrow> SQLiteCollection \<Rightarrow> string \<Rightarrow> gval
     \<Rightarrow> error option \<times> gval \<times> 's SQLiteDatabase" where
  "GetById rt s c ident result =
     (case GetConn s of
        Inl err \<Rightarrow> (Some (Wrapped ErrInternal err), result, s)
      | Inr d \<Rightarrow>
          (case validateResultType result of
             Some err \<Rightarrow> (Some err, result, s)
           | None \<Rightarrow>
               (let query = ''SELECT * FROM '' @ tableName c @ '' WHERE '' @ primaryKey c @ '' = ?''
                in case QueryContext rt d query [VString ident] of
                     (Inl err, d') \<Rightarrow>
                       (Some (Wrapped ErrInternal (sql_Error err)), result, s\<lparr>conn := Some d'\<rparr>)
                   | (Inr rows, d') \<Rightarrow>
                       (case Scans rows of
                          [] \<Rightarrow> (Some (Wrapped ErrNotFound (''id '' @ ident)), result,
                                 s\<lparr>conn := Some d'\<rparr>)
                        | scan # rest \<Rightarrow>
                            (case result of
                               VPtr (Some (VStruct fs)) \<Rightarrow>
                                 (case mapRowToStruct (time_Parse rt) (Columns rows) scan fs of
                                    Inl err \<Rightarrow> (Some err, result, s\<lparr>conn := Some d'\<rparr>)
                                  | Inr fs' \<Rightarrow>
                                      (None, VPtr (Some (VStruct fs')), s\<lparr>conn := Some d'\<rparr>))
                             | _ \<Rightarrow> (None, result, s\<lparr>conn := Some d'\<rparr>))))))"

fun GetAllByCondition_loop ::
  "(string \<Rightarrow> tm option) \<Rightarrow> sql_error + string list \<Rightarrow> (sql_error + sqlval list) list
     \<Rightarrow> field list \<Rightarrow> gval list \<Rightarrow> error option \<times> gval list" where
  \<comment> \<open>\<open>for rows.Next() { ... }\<close>: \<open>elem\<close> is the zero struct of the element type,
      \<open>slice\<close> the slice so far. An error leaves the loop with the slice as it is.\<close>
  "GetAllByCondition_loop parse cols [] elem slice = (None, slice)"
| "GetAllByCondition_loop parse cols (scan # rest) elem slice =
     (case mapRowToStruct parse cols scan elem of
        Inl err \<Rightarrow> (Some err, slice)
      | Inr fs' \<Rightarrow> GetAllByCondition_loop parse cols rest elem (slice @ [VStruct fs']))"

definition selectQuery :: "string \<Rightarrow> string \<Rightarrow> string" where
  \<comment> \<open>\<open>query := fmt.Sprintf("SELECT * FROM %s", c.tableName);
      if whereClause != "" { query += " WHERE " + whereClause }\<close>\<close>
  "selectQuery table whereClause =
     (if whereClause \<noteq> [] then ''SELECT * FROM '' @ table @ '' WHERE '' @ whereClause
      else ''SELECT * FROM '' @ table)"

definition GetAllByCondition ::
  "'s runtime \<Rightarrow> 's SQLiteDatabase \<Rightarrow> SQLiteCollection \<Rightarrow> (string \<times> gval) list \<Rightarrow> gval
     \<Rightarrow> error option \<times> gval \<times> 's SQLiteDatabase" where
  "GetAllByCondition rt s c flt results =
     (case GetConn s of
        Inl err \<Rightarrow> (Some (Wrapped ErrInternal err), results, s)
      | Inr d \<Rightarrow>
          (case results of
             VPtr (Some (VSlice elemType xs)) \<Rightarrow>
               (case Zero elemType of
                  VStruct elem \<Rightarrow>
                    (let (whereClause, vals) = buildWhereClause flt;
                         query = selectQuery (tableName c) whereClause
                     in case QueryContext rt d query vals of
                          (Inl err, d') \<Rightarrow>
                            (Some (Wrapped ErrInternal (sql_Error err)), results,
                             s\<lparr>conn := Some d'\<rparr>)
                        | (Inr rows, d') \<Rightarrow>
                            (case GetAllByCondition_loop (time_Parse rt) (Columns rows)
                                    (Scans rows) elem [] of
                               (Some err, slice) \<Rightarrow>
                                 (Some err, VPtr (Some (VSlice elemType (Some slice))),
                                  s\<lparr>conn := Some d'\<rparr>)
                             | (None, slice) \<Rightarrow>
                                 (case RowsErr rows of
                                    Some err \<Rightarrow>
                                      (Some (Wrapped ErrInternal (sql_Error err)),
                                       VPtr (Some (VSlice elemType (Some slice))),
                                       s\<lparr>conn := Some d'\<rparr>)
                                  | None \<Rightarrow>
                                      (None, VPtr (Some (VSlice elemType (Some slice))),
                                       s\<lparr>conn := Some d'\<rparr>))))
                | _ \<Rightarrow> (Some (Wrapped ErrInvalidInput ''slice elements must be structs''),
                        results, s))
           | VPtr (Some x) \<Rightarrow>
               (Some (Wrapped ErrInvalidInput ''results must be a pointer to a slice''), results, s)
           | _ \<Rightarrow>
               (Some (Wrapped ErrInvalidInput ''results must be a non-nil pointer''), results, s)))"

definition GetOne ::
  "'s runtime \<Rightarrow> 's SQLiteDatabase \<Rightarrow> SQLiteCollection \<Rightarrow> (string \<times> gval) list \<Rightarrow> gval
     \<Rightarrow> error option \<times> gval \<times> 's SQLiteDatabase" where
  "GetOne rt s c flt result =
     (case GetConn s of
        Inl err \<Rightarrow> (Some (Wrapped ErrInternal err), result, s)
      | Inr d \<Rightarrow>
          (case validateResultType result of
             Some err \<Rightarrow> (Some err, result, s)
           | None \<Rightarrow>
               (let (whereClause, vals) = buildWhereClause flt;
                    query = selectQuery (tableName c) whereClause @ '' LIMIT 1''
                in case QueryContext rt d query vals of
                     (Inl err, d') \<Rightarrow>
                       (Some (Wrapped ErrInternal (sql_Error err)), result, s\<lparr>conn := Some d'\<rparr>)
                   | (Inr rows, d') \<Rightarrow>
                       (case Scans rows of
                          [] \<Rightarrow> (Some (Sentinel ErrNotFound), result, s\<lparr>conn := Some d'\<rparr>)
                        | scan # rest \<Rightarrow>
                            (case result of
                               VPtr (Some (VStruct fs)) \<Rightarrow>
                                 (case mapRowToStruct (time_Parse rt) (Columns rows) scan fs of
                                    Inl err \<Rightarrow> (Some err, result, s\<lparr>conn := Some d'\<rparr>)
                                  | Inr fs' \<Rightarrow>
                                      (map_option Native (RowsErr rows),
                                       VPtr (Some (VStruct fs')), s\<lparr>conn := Some d'\<rparr>))
                             | _ \<Rightarrow> (None, result, s\<lparr>conn := Some d'\<rparr>))))))"

definition affected_error :: "string \<Rightarrow> sql_Result \<Rightarrow> error option" where
  \<comment> \<open>The check of \<open>result.RowsAffected()\<close> at the end of \<open>UpdateById\<close> and
      \<open>DeleteById\<close>.\<close>
  "affected_error ident res =
     (case RowsAffected res of
        Inl err \<Rightarrow> Some (Wrapped ErrInternal (sql_Error err))
      | Inr rowsAffected \<Rightarrow>
          (if rowsAffected = 0 then Some (Wrapped ErrNotFound (''id '' @ ident)) else None))"

definition UpdateById ::
  "'s runtime \<Rightarrow> tm \<Rightarrow> 's SQLiteDatabase \<Rightarrow> SQLiteCollection \<Rightarrow> string \<Rightarrow> gval
     \<Rightarrow> error option \<times> 's SQLiteDatabase" where
  "UpdateById rt now s c ident data =
     (case GetConn s of
        Inl err \<Rightarrow> (Some (Wrapped ErrInternal err), s)
      | Inr d \<Rightarrow>
          (case extractFieldsForUpdate now data of
             Inl err \<Rightarrow> (Some err, s)
           | Inr (updateFields, vals) \<Rightarrow>
               (let query = ''UPDATE '' @ tableName c @ '' SET '' @ Join updateFields '', ''
                              @ '' WHERE '' @ primaryKey c @ '' = ?''
                in case ExecContext rt d query (vals @ [VString ident]) of
                     (Inl err, d') \<Rightarrow> (Some (exec_error err), s\<lparr>conn := Some d'\<rparr>)
                   | (Inr res, d') \<Rightarrow> (affected_error ident res, s\<lparr>conn := Some d'\<rparr>))))"

definition DeleteById ::
  "'s runtime \<Rightarrow> 's SQLiteDatabase \<Rightarrow> SQLiteCollection \<Rightarrow> string
     \<Rightarrow> error option \<times> 's SQLiteDatabase" where
  "DeleteById rt s c ident =
     (case GetConn s of
        Inl err \<Rightarrow> (Some (Wrapped ErrInternal err), s)
      | Inr d \<Rightarrow>
          (let query = ''DELETE FROM '' @ tableName c @ '' WHERE '' @ primaryKey c @ '' = ?''
           in case ExecContext rt d query [VString ident] of
                (Inl err, d') \<Rightarrow>
                  (Some (Wrapped ErrInternal (sql_Error err)), s\<lparr>conn := Some d'\<rparr>)
              | (Inr res, d') \<Rightarrow> (affected_error ident res, s\<lparr>conn := Some d'\<rparr>)))"

definition countQuery :: "string \<Rightarrow> string \<Rightarrow> string" where
  \<comment> \<open>\<open>query := fmt.Sprintf("SELECT COUNT(*) FROM %s", c.tableName);
      if whereClause != "" { query += " WHERE " + whereClause }\<close>\<close>
  "countQuery table whereClause =
     (if whereClause \<noteq> [] then ''SELECT COUNT(*) FROM '' @ table @ '' WHERE '' @ whereClause
      else ''SELECT COUNT(*) FROM '' @ table)"

definition Count ::
  "'s runtime \<Rightarrow> 's SQLiteDatabase \<Rightarrow> SQLiteCollection \<Rightarrow> (string \<times> gval) list
     \<Rightarrow> (error + int) \<times> 's SQLiteDatabase" where
  "Count rt s c flt =
     (case GetConn s of
        Inl err \<Rightarrow> (Inl (Wrapped ErrInternal err), s)
      | Inr d \<Rightarrow>
          (let (whereClause, vals) = buildWhereClause flt;
               query = countQuery (tableName c) whereClause
           in case QueryRowScanInt64 rt d query vals of
                (Inl err, d') \<Rightarrow>
                  (Inl (Wrapped ErrInternal (sql_Error err)), s\<lparr>conn := Some d'\<rparr>)
              | (Inr n, d') \<Rightarrow> (Inr n, s\<lparr>conn := Some d'\<rparr>)))"

section \<open>The document store and its collections (firestore.go)\<close>

text \<open>
  Errors of the Firestore client: \<open>iterator.Done\<close>, or an error with the gRPC status
  code that \<open>status.Code\<close> reads from it and its message.
\<close>

datatype codes = NotFound | Unknown | OtherCode

datatype fs_error = Done | Status codes string

fun status_Code :: "fs_error \<Rightarrow> codes" where
  "status_Code Done = Unknown"
| "status_Code (Status c msg) = c"

fun fs_Error :: "fs_error \<Rightarrow> string" where
  "fs_Error Done = ''no more items in iterator''"
| "fs_Error (Status c msg) = msg"

record DocumentSnapshot =
  RefID :: string
  Data :: "string \<rightharpoonup> gval"

text \<open>
  The client is outside the repository, so it is a parameter over a state \<open>'d\<close> of the
  stored documents: \<open>Doc(id).Set\<close> (the flag says whether \<open>firestore.MergeAll\<close> is
  passed), \<open>Doc(id).Get\<close>, \<open>Doc(id).Delete\<close>, a query of equality conditions with an
  optional limit (the documents that \<open>iter.Next()\<close> delivers, and the error that ends
  the iteration instead of \<open>iterator.Done\<close>, if any), and the decoding of a document
  into the value behind a pointer.
\<close>

record 'd firestore =
  fs_Set :: "'d \<Rightarrow> string \<Rightarrow> string \<Rightarrow> (string \<rightharpoonup> gval) \<Rightarrow> bool \<Rightarrow> fs_error option \<times> 'd"
  fs_Get :: "'d \<Rightarrow> string \<Rightarrow> string \<Rightarrow> fs_error + DocumentSnapshot"
  fs_Delete :: "'d \<Rightarrow> string \<Rightarrow> string \<Rightarrow> fs_error option \<times> 'd"
  fs_Documents ::
    "'d \<Rightarrow> string \<Rightarrow> (string \<times> gval) list \<Rightarrow> nat option \<Rightarrow> DocumentSnapshot list \<times> fs_error option"
  fs_decode :: "DocumentSnapshot \<Rightarrow> gval \<Rightarrow> string + gval"

definition DataTo :: "'d firestore \<Rightarrow> DocumentSnapshot \<Rightarrow> gval \<Rightarrow> string + gval" where
  \<comment> \<open>\<open>doc.DataTo(p)\<close>: \<open>p\<close> has to be a non-nil pointer.\<close>
  "DataTo fs doc p =
     (case p of
        VPtr (Some x) \<Rightarrow>
          (case fs_decode fs doc x of Inl err \<Rightarrow> Inl err | Inr x' \<Rightarrow> Inr (VPtr (Some x')))
      | _ \<Rightarrow> Inl ''firestore: nil or not a pointer'')"

record 'd FirestoreDatabase =
  client :: "'d option"

record FirestoreCollection =
  collectionName :: string

fun Split :: "string \<Rightarrow> char \<Rightarrow> string list" where
  \<comment> \<open>\<open>strings.Split\<close> at a separator of one character\<close>
  "Split [] sep = [[]]"
| "Split (c # cs) sep =
     (if c = sep then [] # Split cs sep
      else (case Split cs sep of [] \<Rightarrow> [[c]] | part # parts \<Rightarrow> (c # part) # parts))"

fun isZeroValue :: "gval \<Rightarrow> bool" where
  "isZeroValue (VString s) = (length s = 0)"
| "isZeroValue (VSlice elem xs) = (case xs of None \<Rightarrow> True | Some ys \<Rightarrow> length ys = 0)"
| "isZeroValue (VBool b) = (\<not> b)"
| "isZeroValue (VInt i) = (i = 0)"
| "isZeroValue (VUint u) = (u = 0)"
| "isZeroValue (VFloat x) = (x = 0)"
| "isZeroValue (VPtr p) = (p = None)"
| "isZeroValue (VTime t) = (instant t = 0)"
| "isZeroValue (VStruct fs) = (VStruct fs = Zero (VStruct fs))"

fun structToMap_loop :: "field list \<Rightarrow> (string \<rightharpoonup> gval) \<Rightarrow> (string \<rightharpoonup> gval)" where
  "structToMap_loop [] result = result"
| "structToMap_loop (f # fs) result =
     (let tag = firestore_tag f in
      if tag = ''-'' then structToMap_loop fs result
      else
        (let parts = Split tag (CHR '','');
             name = (if hd parts = [] then Name f else hd parts);
             omitEmpty = (''omitempty'' \<in> set (tl parts))
         in if omitEmpty \<and> isZeroValue (Val f) then structToMap_loop fs result
            else structToMap_loop fs (result(name \<mapsto> Val f))))"

definition structToMap :: "gval \<Rightarrow> string + (string \<rightharpoonup> gval)" where
  "structToMap data =
     (case Indirect data of
        Some (VStruct fs) \<Rightarrow> Inr (structToMap_loop fs Map.empty)
      | _ \<Rightarrow> Inl ''data is not a struct'')"

definition Firestore_Create ::
  "'d firestore \<Rightarrow> 'd FirestoreDatabase \<Rightarrow> FirestoreCollection \<Rightarrow> gval
     \<Rightarrow> (error + string) \<times> 'd FirestoreDatabase" where
  "Firestore_Create fs f c data =
     (case client f of
        None \<Rightarrow> (Inl (Adhoc ''firestore client is not initialized''), f)
      | Some cl \<Rightarrow>
          (case Indirect data of
             Some (VStruct flds) \<Rightarrow>
               (case FieldByName flds ''ID'' of
                  None \<Rightarrow> (Inl (Adhoc ''struct does not have an ID field''), f)
                | Some idField \<Rightarrow>
                    (case Val idField of
                       VString docID \<Rightarrow>
                         (if docID = [] then (Inl (Adhoc ''ID field cannot be empty''), f)
                          else
                            (case structToMap data of
                               Inl err \<Rightarrow>
                                 (Inl (Adhoc (''failed to convert struct to map: '' @ err)), f)
                             | Inr dataMap \<Rightarrow>
                                 (case fs_Set fs cl (collectionName c) docID dataMap False of
                                    (Some err, cl') \<Rightarrow>
                                      (Inl (Adhoc (''failed to create document: '' @ fs_Error err)),
                                       f\<lparr>client := Some cl'\<rparr>)
                                  | (None, cl') \<Rightarrow> (Inr docID, f\<lparr>client := Some cl'\<rparr>))))
                     | _ \<Rightarrow> (Inl (Adhoc ''ID field must be a string''), f)))
           | _ \<Rightarrow> (Inl (Adhoc ''data is not a struct''), f)))"

definition Firestore_GetById ::
  "'d firestore \<Rightarrow> 'd FirestoreDatabase \<Rightarrow> FirestoreCollection \<Rightarrow> string \<Rightarrow> gval
     \<Rightarrow> error option \<times> gval" where
  "Firestore_GetById fs f c ident result =
     (case client f of
        None \<Rightarrow> (Some (Adhoc ''firestore client is not initialized''), result)
      | Some cl \<Rightarrow>
          (case fs_Get fs cl (collectionName c) ident of
             Inl err \<Rightarrow>
               (if status_Code err = NotFound
                then (Some (Adhoc (''document '' @ ident @ '' not found'')), result)
                else (Some (Adhoc (''failed to get document: '' @ fs_Error err)), result))
           | Inr docSnap \<Rightarrow>
               (case DataTo fs docSnap result of
                  Inl err \<Rightarrow> (Some (Adhoc (''failed to map document data: '' @ err)), result)
                | Inr result' \<Rightarrow> (None, result'))))"

definition iter_Next :: "DocumentSnapshot list \<times> fs_error option \<Rightarrow> fs_error + DocumentSnapshot" where
  \<comment> \<open>The first \<open>iter.Next()\<close> of a query: its first document, or the error that ends
      it, which is \<open>iterator.Done\<close> when nothing went wrong.\<close>
  "iter_Next it =
     (case it of
        (doc # rest, e) \<Rightarrow> Inr doc
      | ([], Some err) \<Rightarrow> Inl err
      | ([], None) \<Rightarrow> Inl Done)"

definition Firestore_GetOne ::
  "'d firestore \<Rightarrow> 'd FirestoreDatabase \<Rightarrow> FirestoreCollection \<Rightarrow> (string \<times> gval) list \<Rightarrow> gval
     \<Rightarrow> error option \<times> gval" where
  "Firestore_GetOne fs f c flt result =
     (case client f of
        None \<Rightarrow> (Some (Adhoc ''firestore client is not initialized''), result)
      | Some cl \<Rightarrow>
          (case iter_Next (fs_Documents fs cl (collectionName c) flt (Some 1)) of
             Inl err \<Rightarrow>
               (if err = Done then (Some (Sentinel ErrNotFound), result)
                else (Some (Sentinel ErrInternal), result))
           | Inr doc \<Rightarrow>
               (case DataTo fs doc result of
                  Inl err \<Rightarrow> (Some (Adhoc (''failed to map document data: '' @ err)), result)
                | Inr result' \<Rightarrow> (None, result'))))"

definition setID :: "string \<Rightarrow> gval \<Rightarrow> gval" where
  \<comment> \<open>\<open>if field := ...FieldByName("ID"); field.IsValid() && field.CanSet() &&
      field.Kind() == reflect.String { field.SetString(doc.Ref.ID) }\<close> on a struct
      element.\<close>
  "setID ref item =
     (case item of
        VStruct fs \<Rightarrow>
          (case FieldByName fs ''ID'' of
             Some (Field n d t (VString old)) \<Rightarrow>
               VStruct (map (\<lambda>g. if Name g = ''ID'' then Field n d t (VString ref) else g) fs)
           | _ \<Rightarrow> item)
      | _ \<Rightarrow> item)"

fun Firestore_GetAllByCondition_loop ::
  "'d firestore \<Rightarrow> DocumentSnapshot list \<Rightarrow> gval \<Rightarrow> gval list \<Rightarrow> string + gval list" where
  \<comment> \<open>\<open>for _, doc := range docs { ... }\<close>: \<open>elemType\<close> is the zero value of the element
      type, \<open>sliceVal\<close> the slice so far.\<close>
  "Firestore_GetAllByCondition_loop fs [] elemType sliceVal = Inr sliceVal"
| "Firestore_GetAllByCondition_loop fs (doc # docs) elemType sliceVal =
     (case DataTo fs doc (VPtr (Some (Zero elemType))) of
        Inl err \<Rightarrow> Inl err
      | Inr (VPtr (Some item)) \<Rightarrow>
          Firestore_GetAllByCondition_loop fs docs elemType (sliceVal @ [setID (RefID doc) item])
      | Inr other \<Rightarrow> Inl ''firestore: nil or not a pointer'')"

definition iter_all :: "DocumentSnapshot list \<times> fs_error option \<Rightarrow> fs_error + DocumentSnapshot list" where
  \<comment> \<open>\<open>for { doc, err := iter.Next(); if err == iterator.Done { break };
      if err != nil { return ... }; docs = append(docs, doc) }\<close>\<close>
  "iter_all it =
     (case it of
        (docs, None) \<Rightarrow> Inr docs
      | (docs, Some err) \<Rightarrow> (if err = Done then Inr docs else Inl err))"

definition Firestore_GetAllByCondition ::
  "'d firestore \<Rightarrow> 'd FirestoreDatabase \<Rightarrow> FirestoreCollection \<Rightarrow> (string \<times> gval) list \<Rightarrow> gval
     \<Rightarrow> error option \<times> gval" where
  \<comment> \<open>\<open>reflect.Append\<close> of nothing leaves a nil slice nil.\<close>
  "Firestore_GetAllByCondition fs f c flt results =
     (case client f of
        None \<Rightarrow> (Some (Adhoc ''firestore client is not initialized''), results)
      | Some cl \<Rightarrow>
          (case iter_all (fs_Documents fs cl (collectionName c) flt None) of
             Inl err \<Rightarrow>
               (Some (Adhoc (''failed to iterate documents: '' @ fs_Error err)), results)
           | Inr docs \<Rightarrow>
               (case results of
                  VPtr (Some (VSlice elemType xs)) \<Rightarrow>
                    (case Firestore_GetAllByCondition_loop fs docs elemType
                            (case xs of None \<Rightarrow> [] | Some ys \<Rightarrow> ys) of
                       Inl e \<Rightarrow> (Some (Adhoc (''failed to map document data: '' @ e)), results)
                     | Inr sliceVal \<Rightarrow>
                         (None, VPtr (Some (VSlice elemType
                            (if docs = [] then xs else Some sliceVal)))))
                | _ \<Rightarrow> (Some (Adhoc ''results parameter must be a pointer to a slice''),
                        results))))"

definition Firestore_DeleteById ::
  "'d firestore \<Rightarrow> 'd FirestoreDatabase \<Rightarrow> FirestoreCollection \<Rightarrow> string
     \<Rightarrow> error option \<times> 'd FirestoreDatabase" where
  "Firestore_DeleteById fs f c ident =
     (case client f of
        None \<Rightarrow> (Some (Adhoc ''firestore client is not initialized''), f)
      | Some cl \<Rightarrow>
          (case fs_Delete fs cl (collectionName c) ident of
             (Some err, cl') \<Rightarrow>
               (Some (Adhoc (''failed to delete document: '' @ fs_Error err)),
                f\<lparr>client := Some cl'\<rparr>)
           | (None, cl') \<Rightarrow> (None, f\<lparr>client := Some cl'\<rparr>)))"

section \<open>A reference engine and a reference document store for concrete runs\<close>

text \<open>
  The theorems below hold for every engine and every client. For concrete runs there is
  a small engine over one table: it knows the statement texts of a catalogue, keeps the
  rows as lists of cells along the table's columns, enforces a unique \<open>id\<close>, and
  keeps a journal of every text it receives.
\<close>

datatype action =
    DoInsert "string list"
  | DoSelect "string list" "nat option"
  | DoDelete string

record store =
  cols :: "string list"
  rows :: "sqlval list list"
  journal :: "string list"

fun driver_value :: "gval \<Rightarrow> sqlval option" where
  \<comment> \<open>How an argument is bound: pointers are followed, booleans are stored as 0 and 1,
      slices and structs are not supported.\<close>
  "driver_value (VString s) = Some (StringV s)"
| "driver_value (VInt i) = Some (Int64V i)"
| "driver_value (VUint u) = (if u < 2 ^ 63 then Some (Int64V (int u)) else None)"
| "driver_value (VFloat x) = Some (Float64V x)"
| "driver_value (VBool b) = Some (Int64V (if b then 1 else 0))"
| "driver_value (VTime t) = Some (TimeV t)"
| "driver_value (VPtr None) = Some NullV"
| "driver_value (VPtr (Some x)) = driver_value x"
| "driver_value (VSlice elem xs) = None"
| "driver_value (VStruct fs) = None"

definition cell :: "store \<Rightarrow> sqlval list \<Rightarrow> string \<Rightarrow> sqlval" where
  "cell st row k = (case map_of (zip (cols st) row) k of Some v \<Rightarrow> v | None \<Rightarrow> NullV)"

definition row_matches :: "store \<Rightarrow> (string \<times> sqlval) list \<Rightarrow> sqlval list \<Rightarrow> bool" where
  "row_matches st conds row = list_all (\<lambda>(k, v). v \<noteq> NullV \<and> cell st row k = v) conds"

definition known_columns :: "store \<Rightarrow> string list \<Rightarrow> bool" where
  "known_columns st ks = list_all (\<lambda>k. k \<in> set (cols st)) ks"

definition ref_exec ::
  "(string \<times> action) list \<Rightarrow> store \<Rightarrow> string \<Rightarrow> gval list \<Rightarrow> (sql_error + sql_Result) \<times> store" where
  "ref_exec catalogue st0 query args =
     (let st = st0\<lparr>journal := journal st0 @ [query]\<rparr> in
      case (map_of catalogue query, those (map driver_value args)) of
        (Some (DoInsert cs), Some vs) \<Rightarrow>
          (if cs = [] \<or> length cs \<noteq> length vs then (Inl (DriverError ''syntax error''), st)
           else if \<not> known_columns st cs then (Inl (DriverError ''no such column''), st)
           else
             (let row = map (\<lambda>k. case map_of (zip cs vs) k of Some v \<Rightarrow> v | None \<Rightarrow> NullV)
                            (cols st)
              in if list_ex (row_matches st [(''id'', cell st row ''id'')]) (rows st)
                 then (Inl (DriverError ''UNIQUE constraint failed: id''), st)
                 else (Inr \<lparr>RowsAffected = Inr 1\<rparr>, st\<lparr>rows := rows st @ [row]\<rparr>)))
      | (Some (DoDelete k), Some [v]) \<Rightarrow>
          (if \<not> known_columns st [k] then (Inl (DriverError ''no such column''), st)
           else
             (let kept = filter (\<lambda>row. \<not> row_matches st [(k, v)] row) (rows st)
              in (Inr \<lparr>RowsAffected = Inr (int (length (rows st)) - int (length kept))\<rparr>,
                  st\<lparr>rows := kept\<rparr>)))
      | (Some a, None) \<Rightarrow> (Inl (DriverError ''unsupported argument type''), st)
      | _ \<Rightarrow> (Inl (DriverError ''syntax error''), st))"

definition ref_query ::
  "(string \<times> action) list \<Rightarrow> store \<Rightarrow> string \<Rightarrow> gval list \<Rightarrow> (sql_error + sql_Rows) \<times> store" where
  "ref_query catalogue st0 query args =
     (let st = st0\<lparr>journal := journal st0 @ [query]\<rparr> in
      case (map_of catalogue query, those (map driver_value args)) of
        (Some (DoSelect ks limit), Some vs) \<Rightarrow>
          (if length ks \<noteq> length vs then (Inl (DriverError ''syntax error''), st)
           else if \<not> known_columns st ks then (Inl (DriverError ''no such column''), st)
           else
             (let found = filter (row_matches st (zip ks vs)) (rows st);
                  sent = (case limit of None \<Rightarrow> found | Some n \<Rightarrow> take n found)
              in (Inr \<lparr>Columns = Inr (cols st), Scans = map Inr sent, RowsErr = None\<rparr>, st)))
      | (Some a, None) \<Rightarrow> (Inl (DriverError ''unsupported argument type''), st)
      | _ \<Rightarrow> (Inl (DriverError ''syntax error''), st))"

definition ref_runtime :: "(string \<times> action) list \<Rightarrow> store runtime" where
  "ref_runtime catalogue =
     \<lparr>drv_exec = ref_exec catalogue, drv_query = ref_query catalogue,
      drv_close = (\<lambda>st. None), time_Parse = (\<lambda>s. None)\<rparr>"

definition open_db :: "store \<Rightarrow> store SQLiteDatabase" where
  \<comment> \<open>A database after \<open>Connect\<close>, over the given stored data.\<close>
  "open_db st = \<lparr>conn = Some \<lparr>closed = False, content = st\<rparr>\<rparr>"

text \<open>
  The reference document store is the list of its documents, each with its collection,
  its identifier and its fields; deleting a document that is not there is no error.
\<close>

type_synonym fstore = "(string \<times> string \<times> (string \<rightharpoonup> gval)) list"

definition at_doc :: "string \<Rightarrow> string \<Rightarrow> string \<times> string \<times> (string \<rightharpoonup> gval) \<Rightarrow> bool" where
  "at_doc coll ident d = (fst d = coll \<and> fst (snd d) = ident)"

definition ref_decode :: "DocumentSnapshot \<Rightarrow> gval \<Rightarrow> string + gval" where
  "ref_decode doc x =
     (case x of
        VStruct fs \<Rightarrow>
          Inr (VStruct (map (\<lambda>f.
                 if firestore_tag f = ''-'' then f
                 else (case Data doc (let label = hd (Split (firestore_tag f) (CHR '',''))
                                      in if label = [] then Name f else label) of
                         Some v \<Rightarrow> Field (Name f) (db_tag f) (firestore_tag f) v
                       | None \<Rightarrow> f)) fs))
      | _ \<Rightarrow> Inl ''firestore: cannot set type'')"

definition ref_firestore :: "fstore firestore" where
  "ref_firestore =
     \<lparr>fs_Set = (\<lambda>st coll ident m merge.
        (None, filter (\<lambda>d. \<not> at_doc coll ident d) st
               @ [(coll, ident,
                   (if merge
                    then (case find (at_doc coll ident) st of
                            Some d \<Rightarrow> snd (snd d) ++ m
                          | None \<Rightarrow> m)
                    else m))])),
      fs_Get = (\<lambda>st coll ident.
        case find (at_doc coll ident) st of
          Some d \<Rightarrow> Inr \<lparr>RefID = ident, Data = snd (snd d)\<rparr>
        | None \<Rightarrow> Inl (Status NotFound ''rpc error: code = NotFound'')),
      fs_Delete = (\<lambda>st coll ident. (None, filter (\<lambda>d. \<not> at_doc coll ident d) st)),
      fs_Documents = (\<lambda>st coll flt limit.
        (let found = map (\<lambda>d. \<lparr>RefID = fst (snd d), Data = snd (snd d)\<rparr>)
                       (filter (\<lambda>d. fst d = coll
                                  \<and> list_all (\<lambda>(k, v). snd (snd d) k = Some v) flt) st)
         in (case limit of None \<Rightarrow> found | Some n \<Rightarrow> take n found, None))),
      fs_decode = ref_decode\<rparr>"



definition nonzero_fields :: "field list \<Rightarrow> field list" where
  \<comment> \<open>The fields that do not hold the zero value of their type, in declaration order.\<close>
  "nonzero_fields fs = filter (\<lambda>f. \<not> isZeroOfUnderlyingType (Val f)) fs"

definition valid_results :: "gval \<Rightarrow> bool" where
  \<comment> \<open>The results parameter that \<open>GetAllByCondition\<close> of the relational collection
      accepts: a non-nil pointer to a slice of structs.\<close>
  "valid_results results =
     (case results of
        VPtr (Some (VSlice elemType xs)) \<Rightarrow> (case Zero elemType of VStruct elem \<Rightarrow> True | _ \<Rightarrow> False)
      | _ \<Rightarrow> False)"

definition closed_failure :: "error \<Rightarrow> bool" where
  \<comment> \<open>What an operation on a closed database fails with.\<close>
  "closed_failure e =
     ((e = Wrapped ErrInternal ''sql: database is closed'' \<or> Is e ErrInvalidInput)
      \<and> \<not> Is e ErrDatabaseConnection)"


section \<open>Example records\<close>

definition example_user_fields :: "field list" where
  "example_user_fields =
     [Field ''ID'' ''id'' [] (VString ''u1''),
      Field ''Username'' ''username'' [] (VString ''alice''),
      Field ''LoginCount'' [] [] (VInt 0),
      Field ''Active'' ''active'' [] (VBool False),
      Field ''UpdatedAt'' ''updated_at'' [] (VTime (Tm 0 0))]"

definition users_store :: "string list \<Rightarrow> store" where
  \<comment> \<open>A table \<open>users\<close> with one row, and the journal given.\<close>
  "users_store j =
     \<lparr>cols = [''id'', ''username'', ''role''],
      rows = [[StringV ''u1'', StringV ''alice'', StringV ''admin'']], journal = j\<rparr>"

definition unsafe_filter :: "(string \<times> gval) list" where
  "unsafe_filter = [(''role = 'admin' OR 1; --'', VInt 1)]"

definition user_slice :: gval where
  \<comment> \<open>\<open>var users []User; ... &users\<close>\<close>
  "user_slice = VPtr (Some (VSlice (VStruct (map Zero_field example_user_fields)) None))"

definition anonymous_fields :: "field list" where
  "anonymous_fields =
     [Field ''ID'' ''id'' [] (VString []),
      Field ''Username'' ''username'' [] (VString ''bob'')]"

definition users_catalogue :: "(string \<times> action) list" where
  "users_catalogue =
     [(''INSERT INTO users (username) VALUES (?)'', DoInsert [''username'']),
      (''INSERT INTO users (id, username) VALUES (?, ?)'', DoInsert [''id'', ''username'']),
      (''SELECT * FROM users WHERE id = ?'', DoSelect [''id''] None),
      (''SELECT * FROM users WHERE role = ?'', DoSelect [''role''] None),
      (''SELECT * FROM users WHERE role = ? LIMIT 1'', DoSelect [''role''] (Some 1)),
      (''DELETE FROM users WHERE id = ?'', DoDelete ''id'')]"

definition notes_docs :: fstore where
  "notes_docs = [(''notes'', ''n1'', [''title'' \<mapsto> VString ''milk''])]"

definition note_fields :: "string \<Rightarrow> string \<Rightarrow> field list" where
  \<comment> \<open>\<open>type Note struct { ID string `firestore:"-"`; Title string `firestore:"title"` }\<close>\<close>
  "note_fields ident title =
     [Field ''ID'' [] ''-'' (VString ident), Field ''Title'' [] ''title'' (VString title)]"

definition note_slice :: "gval list option \<Rightarrow> gval" where
  \<comment> \<open>A pointer to a \<open>[]Note\<close> with the given contents.\<close>
  "note_slice xs = VPtr (Some (VSlice (VStruct (note_fields [] [])) xs))"





section \<open>Column-name derivation\<close>

lemma ToLower_underscore: "ToLower (CHR ''_'') = CHR ''_''"
  by (simp add: ToLower_def IsUpper_def)

lemma ToLower_not_upper: "\<not> IsUpper r \<Longrightarrow> ToLower r = r"
  by (simp add: ToLower_def)

lemma camelToSnake_loop_spec:
  "camelToSnake_loop i s acc = acc @ map ToLower (spec_underscores (i = 0) s)"
  by (induction s arbitrary: i acc) (simp_all add: ToLower_underscore ToLower_not_upper)

lemma camelToSnake_loop_snake: "camelToSnake_loop 0 s [] = spec_snake s"
  by (simp add: camelToSnake_loop_spec spec_snake_def)

lemma camelToSnake_cached:
  assumes "cache_ok cache"
  shows "fst (camelToSnake cache s) = camelToSnake_loop 0 s []"
    and "cache_ok (snd (camelToSnake cache s))"
  using assms by (auto simp: camelToSnake_def cache_ok_def Let_def split: option.splits)

lemma camelToSnake_again:
  "camelToSnake (snd (camelToSnake cache s)) s = camelToSnake cache s"
  by (simp add: camelToSnake_def Let_def split: option.splits)

text \<open>
  C7. The column of a field is its \<open>db\<close> tag when that is not empty; otherwise it is the
  field name with an underscore put before every uppercase letter but the first
  character and the whole name in lower case, so \<open>UserID\<close> becomes \<open>user_i_d\<close> and
  \<open>CreatedAt\<close> becomes \<open>created_at\<close>. \<open>camelToSnake\<close> works through the cache: for
  a string that has no entry it computes that name and stores it under the string; for a
  string that has an entry it returns the entry and leaves the cache alone. Either way
  the cache then holds the returned name under the string, no other entry changes, and
  a second call for the same string returns the same name from the cache. Through a
  cache that only \<open>camelToSnake\<close> has written, the name returned and stored is the
  converted one, and the cache stays so.
\<close>

theorem column_name_derivation:
  "columnName f = (if db_tag f = [] then spec_snake (Name f) else db_tag f)
   \<and> spec_snake ''UserID'' = ''user_i_d''
   \<and> spec_snake ''CreatedAt'' = ''created_at''
   \<and> (cache s = None \<longrightarrow>
        camelToSnake cache s = (spec_snake s, cache(s \<mapsto> spec_snake s)))
   \<and> (cache s = Some c \<longrightarrow> camelToSnake cache s = (c, cache))
   \<and> snd (camelToSnake cache s) s = Some (fst (camelToSnake cache s))
   \<and> (t \<noteq> s \<longrightarrow> snd (camelToSnake cache s) t = cache t)
   \<and> camelToSnake (snd (camelToSnake cache s)) s
         = (fst (camelToSnake cache s), snd (camelToSnake cache s))
   \<and> (cache_ok cache \<longrightarrow>
        fst (camelToSnake cache s) = spec_snake s
        \<and> snd (camelToSnake cache s) s = Some (spec_snake s)
        \<and> cache_ok (snd (camelToSnake cache s)))"
proof -
  have a: "columnName f = (if db_tag f = [] then spec_snake (Name f) else db_tag f)"
    by (simp add: columnName_def camelToSnake_loop_snake)
  have e: "spec_snake ''UserID'' = ''user_i_d''" "spec_snake ''CreatedAt'' = ''created_at''"
    by (simp_all add: spec_snake_def IsUpper_def ToLower_def)
  have m: "camelToSnake cache s = (spec_snake s, cache(s \<mapsto> spec_snake s))" if "cache s = None"
    using that by (simp add: camelToSnake_def camelToSnake_loop_snake Let_def)
  have h: "camelToSnake cache s = (c, cache)" if "cache s = Some c"
    using that by (simp add: camelToSnake_def)
  have st: "snd (camelToSnake cache s) s = Some (fst (camelToSnake cache s))"
    by (simp add: camelToSnake_def Let_def split: option.splits)
  have ot: "snd (camelToSnake cache s) t = cache t" if "t \<noteq> s"
    using that by (simp add: camelToSnake_def Let_def split: option.splits)
  have ag: "camelToSnake (snd (camelToSnake cache s)) s
         = (fst (camelToSnake cache s), snd (camelToSnake cache s))"
    by (simp add: camelToSnake_again)
  have ok: "fst (camelToSnake cache s) = spec_snake s
        \<and> snd (camelToSnake cache s) s = Some (spec_snake s)
        \<and> cache_ok (snd (camelToSnake cache s))" if "cache_ok cache"
    using camelToSnake_cached[OF that, of s] st by (simp add: camelToSnake_loop_snake)
  from a e m h st ot ag ok show ?thesis by blast
qed

theorem column_name_derivation_witness:
  "cache_ok Map.empty
   \<and> columnName (Field ''UserID'' [] [] (VString ''u1'')) = ''user_i_d''
   \<and> columnName (Field ''UserID'' ''user_id'' [] (VString ''u1'')) = ''user_id''
   \<and> fst (camelToSnake Map.empty ''CreatedAt'') = ''created_at''
   \<and> snd (camelToSnake Map.empty ''CreatedAt'') ''CreatedAt'' = Some ''created_at''
   \<and> snd (camelToSnake Map.empty ''CreatedAt'') ''UserID'' = None
   \<and> fst (camelToSnake (snd (camelToSnake Map.empty ''CreatedAt'')) ''CreatedAt'') = ''created_at''
   \<and> fst (camelToSnake [''UserID'' \<mapsto> ''uid''] ''UserID'') = ''uid''"
proof -
  have ok: "cache_ok Map.empty" by (simp add: cache_ok_def)
  have snake: "spec_snake ''UserID'' = ''user_i_d''" "spec_snake ''CreatedAt'' = ''created_at''"
    by (simp_all add: spec_snake_def IsUpper_def ToLower_def)
  note a = column_name_derivation[where f = "Field ''UserID'' [] [] (VString ''u1'')"
             and cache = Map.empty and s = "''CreatedAt''" and t = "''UserID''"]
  note b = column_name_derivation[where f = "Field ''UserID'' ''user_id'' [] (VString ''u1'')"
             and cache = "[''UserID'' \<mapsto> ''uid'']" and s = "''UserID''" and c = "''uid''"]
  from a have a1: "columnName (Field ''UserID'' [] [] (VString ''u1''))
                     = (if db_tag (Field ''UserID'' [] [] (VString ''u1'')) = []
                        then spec_snake (Name (Field ''UserID'' [] [] (VString ''u1'')))
                        else db_tag (Field ''UserID'' [] [] (VString ''u1'')))"
    by blast
  from a ok have a2: "fst (camelToSnake Map.empty ''CreatedAt'') = spec_snake ''CreatedAt''"
    and a3: "snd (camelToSnake Map.empty ''CreatedAt'') ''CreatedAt'' = Some (spec_snake ''CreatedAt'')"
    by blast+
  from a have a4: "snd (camelToSnake Map.empty ''CreatedAt'') ''UserID'' = Map.empty ''UserID''"
    by simp
  from a have a5: "camelToSnake (snd (camelToSnake Map.empty ''CreatedAt'')) ''CreatedAt''
                     = (fst (camelToSnake Map.empty ''CreatedAt''),
                        snd (camelToSnake Map.empty ''CreatedAt''))"
    by blast
  have a': "columnName (Field ''UserID'' [] [] (VString ''u1'')) = ''user_i_d''"
    "fst (camelToSnake Map.empty ''CreatedAt'') = ''created_at''"
    "snd (camelToSnake Map.empty ''CreatedAt'') ''CreatedAt'' = Some ''created_at''"
    "snd (camelToSnake Map.empty ''CreatedAt'') ''UserID'' = None"
    "fst (camelToSnake (snd (camelToSnake Map.empty ''CreatedAt'')) ''CreatedAt'') = ''created_at''"
    using a1 a2 a3 a4 a5 snake by simp_all
  from b have b1: "columnName (Field ''UserID'' ''user_id'' [] (VString ''u1''))
                     = (if db_tag (Field ''UserID'' ''user_id'' [] (VString ''u1'')) = []
                        then spec_snake (Name (Field ''UserID'' ''user_id'' [] (VString ''u1'')))
                        else db_tag (Field ''UserID'' ''user_id'' [] (VString ''u1'')))"
    by blast
  from b have b2: "camelToSnake [''UserID'' \<mapsto> ''uid''] ''UserID''
                     = (''uid'', [''UserID'' \<mapsto> ''uid''])"
    by simp
  have b': "columnName (Field ''UserID'' ''user_id'' [] (VString ''u1'')) = ''user_id''"
    "fst (camelToSnake [''UserID'' \<mapsto> ''uid''] ''UserID'') = ''uid''"
    using b1 b2 by simp_all
  from ok a' b' show ?thesis by simp
qed


section \<open>Field extraction for INSERT and UPDATE\<close>

lemma insert_loop_shape:
  "\<exists>ident'. extractFieldsForInsert_loop pk fs (cs, ps, vs, ident)
     = (cs @ map columnName (nonzero_fields fs), ps @ map (\<lambda>f. ''?'') (nonzero_fields fs),
        vs @ map Val (nonzero_fields fs), ident')"
proof (induction fs arbitrary: cs ps vs ident)
  case Nil
  then show ?case by (simp add: nonzero_fields_def)
next
  case (Cons f fs)
  show ?case
  proof (cases "isZeroOfUnderlyingType (Val f)")
    case True
    with Cons.IH[of cs ps vs ident] show ?thesis by (simp add: nonzero_fields_def)
  next
    case False
    let ?i = "if columnName f = pk then (case Val f of VString str \<Rightarrow> str | _ \<Rightarrow> ident) else ident"
    from Cons.IH[of "cs @ [columnName f]" "ps @ [''?'']" "vs @ [Val f]" ?i] False
    show ?thesis by (simp add: nonzero_fields_def)
  qed
qed

lemma insert_loop_no_pk:
  "\<forall>f \<in> set fs. columnName f = pk \<longrightarrow> isZeroOfUnderlyingType (Val f) \<Longrightarrow>
   extractFieldsForInsert_loop pk fs (cs, ps, vs, ident)
     = (cs @ map columnName (nonzero_fields fs), ps @ map (\<lambda>f. ''?'') (nonzero_fields fs),
        vs @ map Val (nonzero_fields fs), ident)"
  by (induction fs arbitrary: cs ps vs ident) (simp_all add: nonzero_fields_def)

lemma update_loop_shape:
  "extractFieldsForUpdate_loop fs (us, vs)
     = (us @ map (\<lambda>f. columnName f @ '' = ?'')
              (filter (\<lambda>f. columnName f \<noteq> ''id'') (nonzero_fields fs)),
        vs @ map Val (filter (\<lambda>f. columnName f \<noteq> ''id'') (nonzero_fields fs)))"
  by (induction fs arbitrary: us vs) (simp_all add: nonzero_fields_def)

text \<open>
  C6, as amended. For a struct or a pointer to a struct, the INSERT extraction takes the
  fields that do not hold the zero value of their type, all of them and no others, in
  declaration order (so a \<open>false\<close> boolean and a \<open>0\<close> integer are left out). The
  UPDATE extraction takes the same fields except those whose column is \<open>id\<close>, which it
  leaves out also when they are not zero, and appends an \<open>updated_at\<close> assignment with
  the current time when the type has a field \<open>Updated_at\<close> or \<open>UpdatedAt\<close>.
\<close>

theorem zero_value_omission:
  "Indirect data = Some (VStruct fs) \<Longrightarrow>
     (\<exists>ident. extractFieldsForInsert data pk
        = Inr (map columnName (nonzero_fields fs), map (\<lambda>f. ''?'') (nonzero_fields fs),
               map Val (nonzero_fields fs), ident))
     \<and> extractFieldsForUpdate now data
        = Inr (map (\<lambda>f. columnName f @ '' = ?'')
                 (filter (\<lambda>f. columnName f \<noteq> ''id'') (nonzero_fields fs))
               @ (if FieldByName fs ''Updated_at'' = None \<and> FieldByName fs ''UpdatedAt'' = None
                  then [] else [''updated_at = ?'']),
               map Val (filter (\<lambda>f. columnName f \<noteq> ''id'') (nonzero_fields fs))
               @ (if FieldByName fs ''Updated_at'' = None \<and> FieldByName fs ''UpdatedAt'' = None
                  then [] else [VTime now]))
     \<and> isZeroOfUnderlyingType (VBool False)
     \<and> isZeroOfUnderlyingType (VInt 0)"
proof -
  assume d: "Indirect data = Some (VStruct fs)"
  obtain ident where
    "extractFieldsForInsert_loop pk fs ([], [], [], [])
       = (map columnName (nonzero_fields fs), map (\<lambda>f. ''?'') (nonzero_fields fs),
          map Val (nonzero_fields fs), ident)"
    using insert_loop_shape[of pk fs "[]" "[]" "[]" "[]"] by auto
  then have ins: "\<exists>ident. extractFieldsForInsert data pk
        = Inr (map columnName (nonzero_fields fs), map (\<lambda>f. ''?'') (nonzero_fields fs),
               map Val (nonzero_fields fs), ident)"
    using d by (simp add: extractFieldsForInsert_def)
  have upd: "extractFieldsForUpdate now data
        = Inr (map (\<lambda>f. columnName f @ '' = ?'')
                 (filter (\<lambda>f. columnName f \<noteq> ''id'') (nonzero_fields fs))
               @ (if FieldByName fs ''Updated_at'' = None \<and> FieldByName fs ''UpdatedAt'' = None
                  then [] else [''updated_at = ?'']),
               map Val (filter (\<lambda>f. columnName f \<noteq> ''id'') (nonzero_fields fs))
               @ (if FieldByName fs ''Updated_at'' = None \<and> FieldByName fs ''UpdatedAt'' = None
                  then [] else [VTime now]))"
    using d by (simp add: extractFieldsForUpdate_def update_loop_shape)
  have "isZeroOfUnderlyingType (VBool False)" "isZeroOfUnderlyingType (VInt 0)"
    by (simp_all add: isZeroOfUnderlyingType_def)
  with ins upd show ?thesis by blast
qed

theorem zero_value_omission_witness:
  "Indirect (VPtr (Some (VStruct example_user_fields))) = Some (VStruct example_user_fields)
   \<and> (\<exists>ident. extractFieldsForInsert (VPtr (Some (VStruct example_user_fields))) ''id''
         = Inr ([''id'', ''username''], [''?'', ''?''], [VString ''u1'', VString ''alice''], ident))
   \<and> extractFieldsForUpdate (Tm 7 0) (VPtr (Some (VStruct example_user_fields)))
         = Inr ([''username = ?'', ''updated_at = ?''], [VString ''alice'', VTime (Tm 7 0)])"
  using zero_value_omission[of "VPtr (Some (VStruct example_user_fields))"
      example_user_fields "''id''" "Tm 7 0"]
  by (simp add: example_user_fields_def Indirect_def nonzero_fields_def
        isZeroOfUnderlyingType_def columnName_def FieldByName_def)

text \<open>
  The claim as stated fails on UPDATE: the \<open>ID\<close> field of the example holds \<open>u1\<close>, not
  the zero value, and is not among the assignments.
\<close>

theorem zero_value_omission_counterexample:
  "\<not> isZeroOfUnderlyingType (VString ''u1'')
   \<and> extractFieldsForUpdate (Tm 7 0) (VStruct example_user_fields)
       = Inr ([''username = ?'', ''updated_at = ?''], [VString ''alice'', VTime (Tm 7 0)])"
  by (simp add: example_user_fields_def extractFieldsForUpdate_def Indirect_def
        isZeroOfUnderlyingType_def columnName_def FieldByName_def)

section \<open>The filter-to-WHERE translation\<close>

lemma where_loop_shape:
  "buildWhereClause_loop flt (ws, vs) = (ws @ map (\<lambda>kv. fst kv @ '' = ?'') flt, vs @ map snd flt)"
  by (induction flt arbitrary: ws vs) auto

lemma buildWhereClause_eq:
  "buildWhereClause flt = (Join (map (\<lambda>kv. fst kv @ '' = ?'') flt) '' AND '', map snd flt)"
  by (cases flt) (simp_all add: buildWhereClause_def where_loop_shape)

text \<open>
  C2, as amended. The translation validates nothing and cannot fail: for every filter,
  whatever the characters of its keys, each entry becomes the key as it is followed by
  \<open> = ?\<close>, the entries joined by \<open> AND \<close>, and the values become the arguments. That
  text goes to the engine; when the engine rejects it, \<open>GetAllByCondition\<close>, \<open>GetOne\<close>
  and \<open>Count\<close> return Internal with the engine's message.
\<close>

theorem filter_keys_verbatim:
  "buildWhereClause flt = (Join (map (\<lambda>kv. fst kv @ '' = ?'') flt) '' AND '', map snd flt)
   \<and> (conn s = Some d \<and> \<not> closed d
        \<and> drv_query rt (content d) (selectQuery (tableName c) (fst (buildWhereClause flt)))
             (snd (buildWhereClause flt)) = (Inl e, st)
        \<and> Zero elemType = VStruct elem
        \<longrightarrow> GetAllByCondition rt s c flt (VPtr (Some (VSlice elemType xs)))
            = (Some (Wrapped ErrInternal (sql_Error e)), VPtr (Some (VSlice elemType xs)),
               s\<lparr>conn := Some (d\<lparr>content := st\<rparr>)\<rparr>))
   \<and> (conn s = Some d \<and> \<not> closed d
        \<and> drv_query rt (content d)
             (selectQuery (tableName c) (fst (buildWhereClause flt)) @ '' LIMIT 1'')
             (snd (buildWhereClause flt)) = (Inl e, st)
        \<longrightarrow> GetOne rt s c flt (VPtr (Some (VStruct fs)))
            = (Some (Wrapped ErrInternal (sql_Error e)), VPtr (Some (VStruct fs)),
               s\<lparr>conn := Some (d\<lparr>content := st\<rparr>)\<rparr>))
   \<and> (conn s = Some d \<and> \<not> closed d
        \<and> drv_query rt (content d) (countQuery (tableName c) (fst (buildWhereClause flt)))
             (snd (buildWhereClause flt)) = (Inl e, st)
        \<longrightarrow> Count rt s c flt
            = (Inl (Wrapped ErrInternal (sql_Error e)), s\<lparr>conn := Some (d\<lparr>content := st\<rparr>)\<rparr>))"
proof -
  have a: "buildWhereClause flt = (Join (map (\<lambda>kv. fst kv @ '' = ?'') flt) '' AND '', map snd flt)"
    by (rule buildWhereClause_eq)
  have b: "GetAllByCondition rt s c flt (VPtr (Some (VSlice elemType xs)))
            = (Some (Wrapped ErrInternal (sql_Error e)), VPtr (Some (VSlice elemType xs)),
               s\<lparr>conn := Some (d\<lparr>content := st\<rparr>)\<rparr>)"
    if "conn s = Some d" "\<not> closed d"
       "drv_query rt (content d) (selectQuery (tableName c) (fst (buildWhereClause flt)))
             (snd (buildWhereClause flt)) = (Inl e, st)" "Zero elemType = VStruct elem"
    using that
    by (simp add: GetAllByCondition_def GetConn_def QueryContext_def split_beta Let_def)
  have c: "GetOne rt s c flt (VPtr (Some (VStruct fs)))
            = (Some (Wrapped ErrInternal (sql_Error e)), VPtr (Some (VStruct fs)),
               s\<lparr>conn := Some (d\<lparr>content := st\<rparr>)\<rparr>)"
    if "conn s = Some d" "\<not> closed d"
       "drv_query rt (content d)
             (selectQuery (tableName c) (fst (buildWhereClause flt)) @ '' LIMIT 1'')
             (snd (buildWhereClause flt)) = (Inl e, st)"
    using that
    by (simp add: GetOne_def GetConn_def QueryContext_def validateResultType_def split_beta Let_def)
  have d: "Count rt s c flt
            = (Inl (Wrapped ErrInternal (sql_Error e)), s\<lparr>conn := Some (d\<lparr>content := st\<rparr>)\<rparr>)"
    if "conn s = Some d" "\<not> closed d"
       "drv_query rt (content d) (countQuery (tableName c) (fst (buildWhereClause flt)))
             (snd (buildWhereClause flt)) = (Inl e, st)"
    using that
    by (simp add: Count_def GetConn_def QueryRowScanInt64_def QueryContext_def split_beta Let_def)
  from a b c d show ?thesis by blast
qed

theorem filter_keys_verbatim_witness:
  "fst (buildWhereClause unsafe_filter) = ''role = 'admin' OR 1; -- = ?''
   \<and> fst (GetAllByCondition (ref_runtime []) (open_db (users_store [])) (Collection ''users'')
             unsafe_filter user_slice)
       = Some (Wrapped ErrInternal ''syntax error'')
   \<and> fst (GetOne (ref_runtime []) (open_db (users_store [])) (Collection ''users'') unsafe_filter
             (VPtr (Some (VStruct example_user_fields))))
       = Some (Wrapped ErrInternal ''syntax error'')
   \<and> fst (Count (ref_runtime []) (open_db (users_store [])) (Collection ''users'') unsafe_filter)
       = Inl (Wrapped ErrInternal ''syntax error'')"
proof -
  let ?d = "\<lparr>closed = False, content = users_store []\<rparr>"
  let ?elem = "map Zero_field example_user_fields"
  note inst = filter_keys_verbatim[of unsafe_filter "open_db (users_store [])" ?d "ref_runtime []"
     "Collection ''users''" "DriverError ''syntax error''" _ "VStruct ?elem" ?elem None
     example_user_fields]
  have w: "fst (buildWhereClause unsafe_filter) = ''role = 'admin' OR 1; -- = ?''"
    by (simp add: unsafe_filter_def buildWhereClause_def)
  have c: "conn (open_db (users_store [])) = Some ?d" "\<not> closed ?d"
    by (simp_all add: open_db_def)
  have z: "Zero (VStruct ?elem) = VStruct ?elem"
    by (simp add: example_user_fields_def)
  have q1: "drv_query (ref_runtime []) (content ?d)
              (selectQuery (tableName (Collection ''users'')) (fst (buildWhereClause unsafe_filter)))
              (snd (buildWhereClause unsafe_filter))
            = (Inl (DriverError ''syntax error''),
               users_store [''SELECT * FROM users WHERE role = 'admin' OR 1; -- = ?''])"
    by (simp add: unsafe_filter_def buildWhereClause_def Collection_def selectQuery_def
          ref_runtime_def ref_query_def users_store_def)
  have q2: "drv_query (ref_runtime []) (content ?d)
              (selectQuery (tableName (Collection ''users'')) (fst (buildWhereClause unsafe_filter))
                 @ '' LIMIT 1'')
              (snd (buildWhereClause unsafe_filter))
            = (Inl (DriverError ''syntax error''),
               users_store [''SELECT * FROM users WHERE role = 'admin' OR 1; -- = ? LIMIT 1''])"
    by (simp add: unsafe_filter_def buildWhereClause_def Collection_def selectQuery_def
          ref_runtime_def ref_query_def users_store_def)
  have q3: "drv_query (ref_runtime []) (content ?d)
              (countQuery (tableName (Collection ''users'')) (fst (buildWhereClause unsafe_filter)))
              (snd (buildWhereClause unsafe_filter))
            = (Inl (DriverError ''syntax error''),
               users_store [''SELECT COUNT(*) FROM users WHERE role = 'admin' OR 1; -- = ?''])"
    by (simp add: unsafe_filter_def buildWhereClause_def Collection_def countQuery_def
          ref_runtime_def ref_query_def users_store_def)
  have g1: "fst (GetAllByCondition (ref_runtime []) (open_db (users_store [])) (Collection ''users'')
                   unsafe_filter user_slice)
       = Some (Wrapped ErrInternal ''syntax error'')"
    using inst[of "users_store [''SELECT * FROM users WHERE role = 'admin' OR 1; -- = ?'']"]
      c q1 z by (simp add: user_slice_def)
  have g2: "fst (GetOne (ref_runtime []) (open_db (users_store [])) (Collection ''users'')
                   unsafe_filter (VPtr (Some (VStruct example_user_fields))))
       = Some (Wrapped ErrInternal ''syntax error'')"
    using inst[of "users_store [''SELECT * FROM users WHERE role = 'admin' OR 1; -- = ? LIMIT 1'']"]
      c q2 by simp
  have g3: "fst (Count (ref_runtime []) (open_db (users_store [])) (Collection ''users'') unsafe_filter)
       = Inl (Wrapped ErrInternal ''syntax error'')"
    using inst[of "users_store [''SELECT COUNT(*) FROM users WHERE role = 'admin' OR 1; -- = ?'']"]
      c q3 by simp
  from w g1 g2 g3 show ?thesis by simp
qed

text \<open>
  The claim as stated fails: a key with quotes, spaces and SQL metacharacters is written
  into the clause as it is, the text with it reaches the engine (its journal shows it),
  and the error that comes back from the engine's rejection is Internal, not
  InvalidInput.
\<close>

theorem filter_keys_counterexample:
  "fst (buildWhereClause unsafe_filter) = ''role = 'admin' OR 1; -- = ?''
   \<and> fst (GetAllByCondition (ref_runtime []) (open_db (users_store [])) (Collection ''users'')
             unsafe_filter user_slice)
       = Some (Wrapped ErrInternal ''syntax error'')
   \<and> map_option (\<lambda>d. journal (content d))
        (conn (snd (snd (GetAllByCondition (ref_runtime []) (open_db (users_store []))
                          (Collection ''users'') unsafe_filter user_slice))))
       = Some [''SELECT * FROM users WHERE role = 'admin' OR 1; -- = ?'']"
  by (simp add: unsafe_filter_def buildWhereClause_def GetAllByCondition_def GetConn_def
        open_db_def users_store_def user_slice_def example_user_fields_def Collection_def
        selectQuery_def QueryContext_def ref_runtime_def ref_query_def)

section \<open>Create without an identifier\<close>

lemma nonzero_no_pk:
  assumes "\<forall>f \<in> set fs. columnName f = pk \<longrightarrow> Val f = VString []"
  shows "pk \<notin> set (map columnName (nonzero_fields fs))"
  using assms by (auto simp: nonzero_fields_def isZeroOfUnderlyingType_def)

text \<open>
  C9. \<open>Create\<close> of the relational collection validates no identifier. For a struct (or
  a pointer to one) in which every field of the primary-key column holds the empty
  string, the zero-value skip leaves that column out of the INSERT, the identifier that
  is captured is the empty string, no error of \<open>Create\<close> is InvalidInput, and when
  the engine accepts the INSERT \<open>Create\<close> returns the empty string as the new id.
\<close>

theorem create_with_empty_id:
  "Indirect data = Some (VStruct fs) \<Longrightarrow>
   \<forall>f \<in> set fs. columnName f = primaryKey c \<longrightarrow> Val f = VString [] \<Longrightarrow>
     extractFieldsForInsert data (primaryKey c)
       = Inr (map columnName (nonzero_fields fs), map (\<lambda>f. ''?'') (nonzero_fields fs),
              map Val (nonzero_fields fs), [])
     \<and> primaryKey c \<notin> set (map columnName (nonzero_fields fs))
     \<and> (\<forall>e. fst (Create rt s c data) = Inl e \<longrightarrow> \<not> Is e ErrInvalidInput)
     \<and> (conn s = Some d \<and> \<not> closed d
          \<and> drv_exec rt (content d)
               (''INSERT INTO '' @ tableName c @ '' (''
                  @ Join (map columnName (nonzero_fields fs)) '', '' @ '') VALUES (''
                  @ Join (map (\<lambda>f. ''?'') (nonzero_fields fs)) '', '' @ '')'')
               (map Val (nonzero_fields fs)) = (Inr res, st)
          \<longrightarrow> Create rt s c data = (Inr [], s\<lparr>conn := Some (d\<lparr>content := st\<rparr>)\<rparr>))"
proof -
  assume d: "Indirect data = Some (VStruct fs)"
    and e: "\<forall>f \<in> set fs. columnName f = primaryKey c \<longrightarrow> Val f = VString []"
  have z: "\<forall>f \<in> set fs. columnName f = primaryKey c \<longrightarrow> isZeroOfUnderlyingType (Val f)"
    using e by (auto simp: isZeroOfUnderlyingType_def)
  have x: "extractFieldsForInsert data (primaryKey c)
       = Inr (map columnName (nonzero_fields fs), map (\<lambda>f. ''?'') (nonzero_fields fs),
              map Val (nonzero_fields fs), [])"
    using d insert_loop_no_pk[OF z, of "[]" "[]" "[]" "[]"]
    by (simp add: extractFieldsForInsert_def)
  have n: "primaryKey c \<notin> set (map columnName (nonzero_fields fs))"
    by (rule nonzero_no_pk[OF e])
  have i: "\<forall>e. fst (Create rt s c data) = Inl e \<longrightarrow> \<not> Is e ErrInvalidInput"
    using x
    by (auto simp: Create_def GetConn_def exec_error_def Let_def
             split: option.splits sum.splits prod.splits if_splits)
  have k: "Create rt s c data = (Inr [], s\<lparr>conn := Some (d\<lparr>content := st\<rparr>)\<rparr>)"
    if "conn s = Some d" "\<not> closed d"
       "drv_exec rt (content d)
               (''INSERT INTO '' @ tableName c @ '' (''
                  @ Join (map columnName (nonzero_fields fs)) '', '' @ '') VALUES (''
                  @ Join (map (\<lambda>f. ''?'') (nonzero_fields fs)) '', '' @ '')'')
               (map Val (nonzero_fields fs)) = (Inr res, st)"
    using that x by (simp add: Create_def GetConn_def ExecContext_def Let_def)
  from x n i k show ?thesis by blast
qed


theorem create_with_empty_id_witness:
  "Indirect (VStruct anonymous_fields) = Some (VStruct anonymous_fields)
   \<and> map (\<lambda>f. (columnName f, Val f)) anonymous_fields
       = [(''id'', VString []), (''username'', VString ''bob'')]
   \<and> extractFieldsForInsert (VStruct anonymous_fields) ''id''
       = Inr ([''username''], [''?''], [VString ''bob''], [])
   \<and> fst (Create (ref_runtime users_catalogue) (open_db (users_store [])) (Collection ''users'')
             (VStruct anonymous_fields)) = Inr []
   \<and> map_option (\<lambda>d. (rows (content d), journal (content d)))
        (conn (snd (Create (ref_runtime users_catalogue) (open_db (users_store []))
                      (Collection ''users'') (VStruct anonymous_fields))))
       = Some ([[StringV ''u1'', StringV ''alice'', StringV ''admin''],
                [NullV, StringV ''bob'', NullV]],
               [''INSERT INTO users (username) VALUES (?)''])"
proof -
  let ?d = "\<lparr>closed = False, content = users_store []\<rparr>"
  let ?st = "\<lparr>cols = [''id'', ''username'', ''role''],
               rows = [[StringV ''u1'', StringV ''alice'', StringV ''admin''],
                       [NullV, StringV ''bob'', NullV]],
               journal = [''INSERT INTO users (username) VALUES (?)'']\<rparr>"
  have i: "Indirect (VStruct anonymous_fields) = Some (VStruct anonymous_fields)"
    by (simp add: Indirect_def)
  have h: "\<forall>f \<in> set anonymous_fields.
             columnName f = primaryKey (Collection ''users'') \<longrightarrow> Val f = VString []"
    by (simp add: anonymous_fields_def columnName_def Collection_def)
  have l: "map (\<lambda>f. (columnName f, Val f)) anonymous_fields
             = [(''id'', VString []), (''username'', VString ''bob'')]"
    by (simp add: anonymous_fields_def columnName_def)
  have n: "nonzero_fields anonymous_fields = [Field ''Username'' ''username'' [] (VString ''bob'')]"
    by (simp add: nonzero_fields_def anonymous_fields_def isZeroOfUnderlyingType_def)
  have x: "drv_exec (ref_runtime users_catalogue) (content ?d)
             (''INSERT INTO '' @ tableName (Collection ''users'') @ '' (''
                @ Join (map columnName (nonzero_fields anonymous_fields)) '', '' @ '') VALUES (''
                @ Join (map (\<lambda>f. ''?'') (nonzero_fields anonymous_fields)) '', '' @ '')'')
             (map Val (nonzero_fields anonymous_fields))
           = (Inr \<lparr>RowsAffected = Inr 1\<rparr>, ?st)"
    by (simp add: n columnName_def Collection_def ref_runtime_def ref_exec_def users_catalogue_def
          users_store_def known_columns_def row_matches_def cell_def)
  note t = create_with_empty_id[OF i h, of "ref_runtime users_catalogue" "open_db (users_store [])"
             ?d "\<lparr>RowsAffected = Inr 1\<rparr>" ?st]
  have c: "Create (ref_runtime users_catalogue) (open_db (users_store [])) (Collection ''users'')
             (VStruct anonymous_fields)
           = (Inr [], (open_db (users_store []))\<lparr>conn := Some (?d\<lparr>content := ?st\<rparr>)\<rparr>)"
    using t x by (simp add: open_db_def)
  have e: "extractFieldsForInsert (VStruct anonymous_fields) ''id''
       = Inr ([''username''], [''?''], [VString ''bob''], [])"
    using t by (simp add: n columnName_def Collection_def)
  show ?thesis using i l e c by simp
qed


section \<open>Deleting what is not there\<close>

text \<open>
  C4. The two backends differ on deleting an id that matches no stored record. The
  relational \<open>DeleteById\<close>, on a connection in use, sends the DELETE by primary key;
  when the engine reports zero affected rows it returns NotFound. The document
  \<open>DeleteById\<close> asks the client to delete the document; the client reports no error
  for a document that is not there and leaves the store as it is, and \<open>DeleteById\<close>
  returns success with nothing changed.
\<close>

theorem delete_of_missing:
  "(conn s = Some d \<and> \<not> closed d
      \<and> drv_exec rt (content d)
           (''DELETE FROM '' @ tableName c @ '' WHERE '' @ primaryKey c @ '' = ?'') [VString ident]
         = (Inr res, st)
      \<and> RowsAffected res = Inr 0
    \<longrightarrow> DeleteById rt s c ident
        = (Some (Wrapped ErrNotFound (''id '' @ ident)), s\<lparr>conn := Some (d\<lparr>content := st\<rparr>)\<rparr>)
      \<and> Is (Wrapped ErrNotFound (''id '' @ ident)) ErrNotFound)
   \<and> (client f = Some cl \<and> fs_Delete fs cl (collectionName fc) ident = (None, cl)
    \<longrightarrow> Firestore_DeleteById fs f fc ident = (None, f))"
  by (simp add: DeleteById_def GetConn_def ExecContext_def affected_error_def
        Firestore_DeleteById_def Let_def)

theorem delete_of_missing_witness:
  "list_all (\<lambda>row. cell (users_store []) row ''id'' \<noteq> StringV ''nobody'') (rows (users_store []))
   \<and> DeleteById (ref_runtime users_catalogue) (open_db (users_store [])) (Collection ''users'') ''nobody''
       = (Some (Wrapped ErrNotFound ''id nobody''),
          open_db (users_store [''DELETE FROM users WHERE id = ?'']))
   \<and> find (at_doc ''notes'' ''nobody'') notes_docs = None
   \<and> Firestore_DeleteById ref_firestore \<lparr>client = Some notes_docs\<rparr>
         \<lparr>collectionName = ''notes''\<rparr> ''nobody''
       = (None, \<lparr>client = Some notes_docs\<rparr>)"
proof -
  let ?d = "\<lparr>closed = False, content = users_store []\<rparr>"
  have a: "list_all (\<lambda>row. cell (users_store []) row ''id'' \<noteq> StringV ''nobody'') (rows (users_store []))"
    by (simp add: users_store_def cell_def)
  have x: "drv_exec (ref_runtime users_catalogue) (content ?d)
             (''DELETE FROM '' @ tableName (Collection ''users'') @ '' WHERE ''
                @ primaryKey (Collection ''users'') @ '' = ?'') [VString ''nobody'']
           = (Inr \<lparr>RowsAffected = Inr 0\<rparr>, users_store [''DELETE FROM users WHERE id = ?''])"
    by (simp add: Collection_def ref_runtime_def ref_exec_def users_catalogue_def
          users_store_def known_columns_def row_matches_def cell_def)
  have b: "find (at_doc ''notes'' ''nobody'') notes_docs = None"
    by (simp add: notes_docs_def at_doc_def)
  have y: "fs_Delete ref_firestore notes_docs (collectionName \<lparr>collectionName = ''notes''\<rparr>) ''nobody''
           = (None, notes_docs)"
    by (simp add: ref_firestore_def notes_docs_def at_doc_def)
  show ?thesis
    using a b x y
      delete_of_missing[of "open_db (users_store [])" ?d "ref_runtime users_catalogue"
        "Collection ''users''" "''nobody''" "\<lparr>RowsAffected = Inr 0\<rparr>"
        "users_store [''DELETE FROM users WHERE id = ?'']"
        "\<lparr>client = Some notes_docs\<rparr>" notes_docs ref_firestore "\<lparr>collectionName = ''notes''\<rparr>"]
    by (simp add: open_db_def)
qed


section \<open>Lookups that match nothing\<close>

text \<open>
  C5, at the input where it fails. No document of the store matches the filter, and the
  caller's results slice already holds one element. The document \<open>GetAllByCondition\<close>
  returns no error and leaves that element in the slice, so the results are not the
  empty sequence. The relational \<open>GetAllByCondition\<close>, called with a slice that holds
  elements and a filter that matches no row, returns no error and the empty sequence.
  With a slice that holds nothing the document \<open>GetAllByCondition\<close> returns no error
  and the slice as it was, and \<open>GetOne\<close> returns NotFound on both backends.
\<close>

theorem no_match_prefilled_slice:
  "fs_Documents ref_firestore notes_docs ''notes'' [(''title'', VString ''eggs'')] None = ([], None)
   \<and> Firestore_GetAllByCondition ref_firestore \<lparr>client = Some notes_docs\<rparr>
         \<lparr>collectionName = ''notes''\<rparr> [(''title'', VString ''eggs'')]
         (note_slice (Some [VStruct (note_fields ''n0'' ''old'')]))
       = (None, note_slice (Some [VStruct (note_fields ''n0'' ''old'')]))
   \<and> note_slice (Some [VStruct (note_fields ''n0'' ''old'')]) \<noteq> note_slice (Some [])
   \<and> note_slice (Some [VStruct (note_fields ''n0'' ''old'')]) \<noteq> note_slice None
   \<and> GetAllByCondition (ref_runtime users_catalogue) (open_db (users_store []))
         (Collection ''users'') [(''role'', VString ''guest'')]
         (VPtr (Some (VSlice (VStruct (map Zero_field example_user_fields))
                        (Some [VStruct example_user_fields]))))
       = (None, VPtr (Some (VSlice (VStruct (map Zero_field example_user_fields)) (Some []))),
          open_db (users_store [''SELECT * FROM users WHERE role = ?'']))
   \<and> Firestore_GetAllByCondition ref_firestore \<lparr>client = Some notes_docs\<rparr>
         \<lparr>collectionName = ''notes''\<rparr> [(''title'', VString ''eggs'')] (note_slice None)
       = (None, note_slice None)
   \<and> Firestore_GetOne ref_firestore \<lparr>client = Some notes_docs\<rparr> \<lparr>collectionName = ''notes''\<rparr>
         [(''title'', VString ''eggs'')] (VPtr (Some (VStruct (note_fields [] []))))
       = (Some (Sentinel ErrNotFound), VPtr (Some (VStruct (note_fields [] []))))
   \<and> fst (GetOne (ref_runtime users_catalogue) (open_db (users_store [])) (Collection ''users'')
            [(''role'', VString ''guest'')] (VPtr (Some (VStruct example_user_fields))))
       = Some (Sentinel ErrNotFound)"
  by (simp add: Firestore_GetAllByCondition_def Firestore_GetOne_def ref_firestore_def
        notes_docs_def iter_all_def iter_Next_def note_slice_def GetAllByCondition_def
        GetOne_def GetConn_def open_db_def Collection_def example_user_fields_def
        validateResultType_def buildWhereClause_def selectQuery_def QueryContext_def
        ref_runtime_def ref_query_def users_catalogue_def users_store_def known_columns_def
        row_matches_def cell_def)

section \<open>The results slice of \<open>GetAllByCondition\<close>\<close>

lemma sql_loop_length:
  "GetAllByCondition_loop parse cs scans elem acc = (None, items) \<Longrightarrow>
   length items = length acc + length scans"
  by (induction scans arbitrary: acc) (auto split: sum.splits)

lemma fs_loop_acc:
  "Firestore_GetAllByCondition_loop fs docs etype acc
     = (case Firestore_GetAllByCondition_loop fs docs etype [] of
          Inl err \<Rightarrow> Inl err
        | Inr items \<Rightarrow> Inr (acc @ items))"
proof (induction docs arbitrary: acc)
  case Nil
  then show ?case by simp
next
  case (Cons doc docs)
  show ?case
  proof (cases "DataTo fs doc (VPtr (Some (Zero etype)))")
    case (Inl err)
    then show ?thesis by simp
  next
    case (Inr p)
    show ?thesis
    proof (cases "\<exists>item. p = VPtr (Some item)")
      case True
      then obtain item where p: "p = VPtr (Some item)" by blast
      show ?thesis
        using Inr p Cons.IH[of "acc @ [setID (RefID doc) item]"]
          Cons.IH[of "[setID (RefID doc) item]"]
        by (simp split: sum.splits)
    next
      case False
      with Inr show ?thesis
        by (cases p) (auto split: option.splits)
    qed
  qed
qed

lemma fs_loop_length:
  "Firestore_GetAllByCondition_loop fs docs etype acc = Inr items \<Longrightarrow>
   length items = length acc + length docs"
  by (induction docs arbitrary: acc)
     (auto split: sum.splits gval.splits option.splits)

text \<open>
  C10. The two backends treat the caller's results slice differently. The relational
  \<open>GetAllByCondition\<close> empties the slice before it appends, so on success the slice
  holds one record for every row the engine returned and nothing else, whatever it held
  before. The document \<open>GetAllByCondition\<close> never empties it: on success the slice
  holds what it held before, followed by one record for every document found.
\<close>

theorem output_slice_handling:
  "(conn s = Some d \<and> \<not> closed d
      \<and> Zero elemType = VStruct elem
      \<and> drv_query rt (content d) (selectQuery (tableName c) (fst (buildWhereClause flt)))
           (snd (buildWhereClause flt)) = (Inr rws, st)
      \<and> GetAllByCondition_loop (time_Parse rt) (Columns rws) (Scans rws) elem [] = (None, items)
      \<and> RowsErr rws = None
    \<longrightarrow> GetAllByCondition rt s c flt (VPtr (Some (VSlice elemType xs)))
        = (None, VPtr (Some (VSlice elemType (Some items))),
           s\<lparr>conn := Some (d\<lparr>content := st\<rparr>)\<rparr>)
      \<and> length items = length (Scans rws))
   \<and> (client f = Some cl
      \<and> iter_all (fs_Documents fs cl (collectionName fc) fflt None) = Inr docs
      \<and> Firestore_GetAllByCondition_loop fs docs etype [] = Inr fitems
    \<longrightarrow> Firestore_GetAllByCondition fs f fc fflt (VPtr (Some (VSlice etype (Some ys))))
        = (None, VPtr (Some (VSlice etype (Some (ys @ fitems)))))
      \<and> length fitems = length docs)"
proof -
  have a: "GetAllByCondition rt s c flt (VPtr (Some (VSlice elemType xs)))
        = (None, VPtr (Some (VSlice elemType (Some items))),
           s\<lparr>conn := Some (d\<lparr>content := st\<rparr>)\<rparr>)
      \<and> length items = length (Scans rws)"
    if "conn s = Some d" "\<not> closed d" "Zero elemType = VStruct elem"
       "drv_query rt (content d) (selectQuery (tableName c) (fst (buildWhereClause flt)))
           (snd (buildWhereClause flt)) = (Inr rws, st)"
       "GetAllByCondition_loop (time_Parse rt) (Columns rws) (Scans rws) elem [] = (None, items)"
       "RowsErr rws = None"
    using that sql_loop_length[OF that(5)]
    by (simp add: GetAllByCondition_def GetConn_def QueryContext_def split_beta Let_def)
  have b: "Firestore_GetAllByCondition fs f fc fflt (VPtr (Some (VSlice etype (Some ys))))
        = (None, VPtr (Some (VSlice etype (Some (ys @ fitems)))))
      \<and> length fitems = length docs"
    if "client f = Some cl"
       "iter_all (fs_Documents fs cl (collectionName fc) fflt None) = Inr docs"
       "Firestore_GetAllByCondition_loop fs docs etype [] = Inr fitems"
    using that fs_loop_length[OF that(3)] fs_loop_acc[of fs docs etype ys]
    by (auto simp: Firestore_GetAllByCondition_def)
  from a b show ?thesis by blast
qed


theorem output_slice_handling_witness:
  "GetAllByCondition (ref_runtime users_catalogue) (open_db (users_store [])) (Collection ''users'')
       [(''role'', VString ''admin'')]
       (VPtr (Some (VSlice (VStruct (map Zero_field example_user_fields))
                      (Some [VStruct (map Zero_field example_user_fields),
                             VStruct (map Zero_field example_user_fields)]))))
     = (None,
        VPtr (Some (VSlice (VStruct (map Zero_field example_user_fields))
                      (Some [VStruct example_user_fields]))),
        open_db (users_store [''SELECT * FROM users WHERE role = ?'']))
   \<and> Firestore_GetAllByCondition ref_firestore \<lparr>client = Some notes_docs\<rparr>
         \<lparr>collectionName = ''notes''\<rparr> [(''title'', VString ''milk'')]
         (note_slice (Some [VStruct (note_fields ''n0'' ''old'')]))
     = (None, note_slice (Some [VStruct (note_fields ''n0'' ''old''),
                                VStruct (note_fields ''n1'' ''milk'')]))"
proof -
  let ?d = "\<lparr>closed = False, content = users_store []\<rparr>"
  let ?flt = "[(''role'', VString ''admin'')]"
  let ?rws = "\<lparr>Columns = Inr [''id'', ''username'', ''role''],
               Scans = [Inr [StringV ''u1'', StringV ''alice'', StringV ''admin'']],
               RowsErr = None\<rparr>"
  let ?elem = "map Zero_field example_user_fields"
  let ?doc = "\<lparr>RefID = ''n1'', Data = [''title'' \<mapsto> VString ''milk'']\<rparr>"
  have c: "conn (open_db (users_store [])) = Some ?d" "\<not> closed ?d"
    by (simp_all add: open_db_def)
  have z: "Zero (VStruct ?elem) = VStruct ?elem"
    by (simp add: example_user_fields_def)
  have q: "drv_query (ref_runtime users_catalogue) (content ?d)
              (selectQuery (tableName (Collection ''users'')) (fst (buildWhereClause ?flt)))
              (snd (buildWhereClause ?flt))
            = (Inr ?rws, users_store [''SELECT * FROM users WHERE role = ?''])"
    by (simp add: buildWhereClause_def Collection_def selectQuery_def ref_runtime_def
          ref_query_def users_catalogue_def users_store_def known_columns_def row_matches_def
          cell_def)
  have l: "GetAllByCondition_loop (time_Parse (ref_runtime users_catalogue)) (Columns ?rws)
             (Scans ?rws) ?elem [] = (None, [VStruct example_user_fields])"
    by (simp add: mapRowToStruct_def mapField_def columnMap_def columnName_def
          example_user_fields_def IsUpper_def ToLower_def)
  have fd: "iter_all (fs_Documents ref_firestore notes_docs
                (collectionName \<lparr>collectionName = ''notes''\<rparr>) [(''title'', VString ''milk'')] None)
            = Inr [?doc]"
    by (simp add: ref_firestore_def notes_docs_def iter_all_def)
  have fl: "Firestore_GetAllByCondition_loop ref_firestore [?doc] (VStruct (note_fields [] [])) []
            = Inr [VStruct (note_fields ''n1'' ''milk'')]"
    by (simp add: DataTo_def ref_firestore_def ref_decode_def note_fields_def setID_def
          FieldByName_def)
  note inst = output_slice_handling[where s = "open_db (users_store [])" and d = ?d
      and rt = "ref_runtime users_catalogue" and c = "Collection ''users''" and flt = ?flt
      and rws = ?rws and st = "users_store [''SELECT * FROM users WHERE role = ?'']"
      and elemType = "VStruct ?elem" and elem = ?elem
      and items = "[VStruct example_user_fields]"
      and xs = "Some [VStruct ?elem, VStruct ?elem]"
      and f = "\<lparr>client = Some notes_docs\<rparr>" and cl = notes_docs
      and fs = ref_firestore and fc = "\<lparr>collectionName = ''notes''\<rparr>"
      and fflt = "[(''title'', VString ''milk'')]" and docs = "[?doc]"
      and etype = "VStruct (note_fields [] [])"
      and fitems = "[VStruct (note_fields ''n1'' ''milk'')]"
      and ys = "[VStruct (note_fields ''n0'' ''old'')]"]
  show ?thesis
    using inst c z q l fd fl by (simp add: open_db_def note_slice_def)
qed


section \<open>Operations after \<open>Close\<close>\<close>

lemma extract_insert_invalid:
  "extractFieldsForInsert data pk = Inl e \<Longrightarrow>
   e = Wrapped ErrInvalidInput ''data must be a struct or pointer to struct''"
  by (auto simp: extractFieldsForInsert_def split: option.splits gval.splits)

lemma extract_update_invalid:
  "extractFieldsForUpdate now data = Inl e \<Longrightarrow>
   e = Wrapped ErrInvalidInput ''data must be a struct or pointer to struct''"
  by (auto simp: extractFieldsForUpdate_def Let_def
           split: option.splits gval.splits prod.splits if_splits)

lemma extract_insert_struct:
  "Indirect data = Some (VStruct fs) \<Longrightarrow> \<exists>x. extractFieldsForInsert data pk = Inr x"
  by (cases "extractFieldsForInsert_loop pk fs ([], [], [], [])")
     (simp add: extractFieldsForInsert_def)

lemma extract_update_struct:
  "Indirect data = Some (VStruct fs) \<Longrightarrow> \<exists>x. extractFieldsForUpdate now data = Inr x"
  by (cases "extractFieldsForUpdate_loop fs ([], [])")
     (simp add: extractFieldsForUpdate_def Let_def)

lemma validate_invalid:
  "validateResultType result = Some e \<Longrightarrow> Is e ErrInvalidInput"
  by (auto simp: validateResultType_def split: option.splits gval.splits)

text \<open>
  C8, as amended. \<open>Close\<close> on a connected relational database closes the handle,
  passes on the error of closing if there is one, and leaves the handle in the database.
  Every collection operation after that fails without reaching the engine, without
  reconnecting and without changing the database. With well-formed arguments (a struct
  or a pointer to one as data, a pointer to a struct as result, a pointer to a slice of
  structs as results) each of the seven operations returns Internal around the closed
  handle's error. When the operation's own argument check rejects the arguments, it
  returns the InvalidInput of that check. No such error is ConnectionFailure.
\<close>

theorem use_after_close:
  "conn s = Some d \<Longrightarrow>
     Close rt s
       = (map_option Native (if closed d then None else drv_close rt (content d)),
          s\<lparr>conn := Some (d\<lparr>closed := True\<rparr>)\<rparr>)
     \<and> (Indirect data = Some (VStruct fs) \<longrightarrow>
          Create rt (snd (Close rt s)) c data
            = (Inl (Wrapped ErrInternal ''sql: database is closed''), snd (Close rt s))
          \<and> UpdateById rt now (snd (Close rt s)) c ident data
            = (Some (Wrapped ErrInternal ''sql: database is closed''), snd (Close rt s)))
     \<and> GetById rt (snd (Close rt s)) c ident (VPtr (Some (VStruct flds)))
         = (Some (Wrapped ErrInternal ''sql: database is closed''), VPtr (Some (VStruct flds)),
            snd (Close rt s))
     \<and> GetOne rt (snd (Close rt s)) c flt (VPtr (Some (VStruct flds)))
         = (Some (Wrapped ErrInternal ''sql: database is closed''), VPtr (Some (VStruct flds)),
            snd (Close rt s))
     \<and> (valid_results results \<longrightarrow>
          GetAllByCondition rt (snd (Close rt s)) c flt results
            = (Some (Wrapped ErrInternal ''sql: database is closed''), results, snd (Close rt s)))
     \<and> DeleteById rt (snd (Close rt s)) c ident
         = (Some (Wrapped ErrInternal ''sql: database is closed''), snd (Close rt s))
     \<and> Count rt (snd (Close rt s)) c flt
         = (Inl (Wrapped ErrInternal ''sql: database is closed''), snd (Close rt s))
     \<and> (extractFieldsForInsert data (primaryKey c) = Inl e1 \<longrightarrow>
          Create rt (snd (Close rt s)) c data = (Inl e1, snd (Close rt s)) \<and> Is e1 ErrInvalidInput)
     \<and> (extractFieldsForUpdate now data = Inl e2 \<longrightarrow>
          UpdateById rt now (snd (Close rt s)) c ident data = (Some e2, snd (Close rt s))
          \<and> Is e2 ErrInvalidInput)
     \<and> (validateResultType result = Some e3 \<longrightarrow>
          GetById rt (snd (Close rt s)) c ident result = (Some e3, result, snd (Close rt s))
          \<and> GetOne rt (snd (Close rt s)) c flt result = (Some e3, result, snd (Close rt s))
          \<and> Is e3 ErrInvalidInput)
     \<and> (\<not> valid_results results \<longrightarrow>
          (\<exists>e4. GetAllByCondition rt (snd (Close rt s)) c flt results
                   = (Some e4, results, snd (Close rt s)) \<and> Is e4 ErrInvalidInput))
     \<and> (\<exists>e. Create rt (snd (Close rt s)) c data = (Inl e, snd (Close rt s)) \<and> closed_failure e)
     \<and> (\<exists>e. GetById rt (snd (Close rt s)) c ident result = (Some e, result, snd (Close rt s))
             \<and> closed_failure e)
     \<and> (\<exists>e. GetOne rt (snd (Close rt s)) c flt result = (Some e, result, snd (Close rt s))
             \<and> closed_failure e)
     \<and> (\<exists>e. GetAllByCondition rt (snd (Close rt s)) c flt results
                = (Some e, results, snd (Close rt s)) \<and> closed_failure e)
     \<and> (\<exists>e. UpdateById rt now (snd (Close rt s)) c ident data = (Some e, snd (Close rt s))
             \<and> closed_failure e)"
proof -
  assume c: "conn s = Some d"
  let ?s = "s\<lparr>conn := Some (d\<lparr>closed := True\<rparr>)\<rparr>"
  let ?E = "Wrapped ErrInternal ''sql: database is closed''"
  have cl: "Close rt s
       = (map_option Native (if closed d then None else drv_close rt (content d)), ?s)"
    using c by (cases "closed d") (simp_all add: Close_def sql_Close_def)
  then have sn: "snd (Close rt s) = ?s" by simp
  have g: "GetConn ?s = Inr (d\<lparr>closed := True\<rparr>)" by (simp add: GetConn_def)
  have k: "closed_failure ?E"
    by (simp add: closed_failure_def)
  have inv: "closed_failure e" if "Is e ErrInvalidInput" for e
    using that by (cases e) (auto simp: closed_failure_def)
  have crI: "Create rt ?s c data = (Inl ?E, ?s)" if "extractFieldsForInsert data (primaryKey c) = Inr x" for x
    using that g by (cases x) (simp add: Create_def ExecContext_def exec_error_def Let_def)
  have crE: "Create rt ?s c data = (Inl e, ?s)" if "extractFieldsForInsert data (primaryKey c) = Inl e" for e
    using that g by (simp add: Create_def)
  have upI: "UpdateById rt now ?s c ident data = (Some ?E, ?s)" if "extractFieldsForUpdate now data = Inr x" for x
    using that g by (cases x) (simp add: UpdateById_def ExecContext_def exec_error_def Let_def)
  have upE: "UpdateById rt now ?s c ident data = (Some e, ?s)" if "extractFieldsForUpdate now data = Inl e" for e
    using that g by (simp add: UpdateById_def)
  have gbI: "GetById rt ?s c ident r = (Some ?E, r, ?s)" if "validateResultType r = None" for r
    using that g by (simp add: GetById_def QueryContext_def Let_def)
  have gbE: "GetById rt ?s c ident r = (Some e, r, ?s)" if "validateResultType r = Some e" for r e
    using that g by (simp add: GetById_def)
  have goI: "GetOne rt ?s c flt r = (Some ?E, r, ?s)" if "validateResultType r = None" for r
    using that g by (simp add: GetOne_def QueryContext_def Let_def split_beta)
  have goE: "GetOne rt ?s c flt r = (Some e, r, ?s)" if "validateResultType r = Some e" for r e
    using that g by (simp add: GetOne_def)
  have vs: "validateResultType (VPtr (Some (VStruct flds))) = None"
    by (simp add: validateResultType_def)
  have gaI: "GetAllByCondition rt ?s c flt results = (Some ?E, results, ?s)" if "valid_results results"
    using that g
    by (auto simp: valid_results_def GetAllByCondition_def QueryContext_def Let_def split_beta
             split: gval.splits option.splits)
  have gaE: "\<exists>e4. GetAllByCondition rt ?s c flt results = (Some e4, results, ?s) \<and> Is e4 ErrInvalidInput"
    if nv: "\<not> valid_results results"
  proof (cases results)
    case (VPtr p)
    show ?thesis
    proof (cases p)
      case None
      with VPtr g show ?thesis by (simp add: GetAllByCondition_def)
    next
      case (Some x)
      show ?thesis
      proof (cases x)
        case (VSlice elemType xs)
        with nv VPtr Some have "\<forall>elem. Zero elemType \<noteq> VStruct elem"
          by (auto simp: valid_results_def)
        with VPtr Some VSlice g show ?thesis
          by (cases "Zero elemType") (simp_all add: GetAllByCondition_def)
      qed (use VPtr Some g in \<open>simp_all add: GetAllByCondition_def\<close>)
    qed
  qed (use g in \<open>simp_all add: GetAllByCondition_def\<close>)
  have de: "DeleteById rt ?s c ident = (Some ?E, ?s)"
    using g by (simp add: DeleteById_def ExecContext_def Let_def)
  have co: "Count rt ?s c flt = (Inl ?E, ?s)"
    using g by (simp add: Count_def QueryRowScanInt64_def QueryContext_def Let_def split_beta)
  have a1: "Create rt ?s c data = (Inl ?E, ?s) \<and> UpdateById rt now ?s c ident data = (Some ?E, ?s)"
    if "Indirect data = Some (VStruct fs)"
    using extract_insert_struct[OF that, of "primaryKey c"] extract_update_struct[OF that, of now]
      crI upI by auto
  have b1: "Create rt ?s c data = (Inl e, ?s) \<and> Is e ErrInvalidInput"
    if "extractFieldsForInsert data (primaryKey c) = Inl e" for e
    using crE[OF that] extract_insert_invalid[OF that] by simp
  have b2: "UpdateById rt now ?s c ident data = (Some e, ?s) \<and> Is e ErrInvalidInput"
    if "extractFieldsForUpdate now data = Inl e" for e
    using upE[OF that] extract_update_invalid[OF that] by simp
  have b3: "GetById rt ?s c ident result = (Some e, result, ?s)
            \<and> GetOne rt ?s c flt result = (Some e, result, ?s) \<and> Is e ErrInvalidInput"
    if "validateResultType result = Some e" for e
    using gbE[OF that] goE[OF that] validate_invalid[OF that] by simp
  have x1: "\<exists>e. Create rt ?s c data = (Inl e, ?s) \<and> closed_failure e"
  proof (cases "extractFieldsForInsert data (primaryKey c)")
    case (Inl e)
    from b1[OF Inl] inv show ?thesis by blast
  next
    case (Inr x)
    from crI[OF Inr] k show ?thesis by blast
  qed
  have x2: "\<exists>e. GetById rt ?s c ident result = (Some e, result, ?s) \<and> closed_failure e"
  proof (cases "validateResultType result")
    case None
    from gbI[OF None] k show ?thesis by blast
  next
    case (Some e)
    from b3[OF Some] inv show ?thesis by blast
  qed
  have x3: "\<exists>e. GetOne rt ?s c flt result = (Some e, result, ?s) \<and> closed_failure e"
  proof (cases "validateResultType result")
    case None
    from goI[OF None] k show ?thesis by blast
  next
    case (Some e)
    from b3[OF Some] inv show ?thesis by blast
  qed
  have x4: "\<exists>e. GetAllByCondition rt ?s c flt results = (Some e, results, ?s) \<and> closed_failure e"
  proof (cases "valid_results results")
    case True
    from gaI[OF True] k show ?thesis by blast
  next
    case False
    from gaE[OF False] inv show ?thesis by blast
  qed
  have x5: "\<exists>e. UpdateById rt now ?s c ident data = (Some e, ?s) \<and> closed_failure e"
  proof (cases "extractFieldsForUpdate now data")
    case (Inl e)
    from b2[OF Inl] inv show ?thesis by blast
  next
    case (Inr x)
    from upI[OF Inr] k show ?thesis by blast
  qed
  show ?thesis
    unfolding sn
    using cl a1 gbI[OF vs] goI[OF vs] gaI gaE de co b1[of e1] b2[of e2] b3[of e3] x1 x2 x3 x4 x5
    by (intro conjI impI) simp_all
qed


theorem use_after_close_witness:
  "conn (open_db (users_store [])) = Some \<lparr>closed = False, content = users_store []\<rparr>
   \<and> Close (ref_runtime users_catalogue) (open_db (users_store []))
       = (None, \<lparr>conn = Some \<lparr>closed = True, content = users_store []\<rparr>\<rparr>)
   \<and> Create (ref_runtime users_catalogue)
         \<lparr>conn = Some \<lparr>closed = True, content = users_store []\<rparr>\<rparr>
         (Collection ''users'') (VStruct example_user_fields)
       = (Inl (Wrapped ErrInternal ''sql: database is closed''),
          \<lparr>conn = Some \<lparr>closed = True, content = users_store []\<rparr>\<rparr>)
   \<and> UpdateById (ref_runtime users_catalogue) (Tm 7 0)
         \<lparr>conn = Some \<lparr>closed = True, content = users_store []\<rparr>\<rparr>
         (Collection ''users'') ''u1'' (VStruct example_user_fields)
       = (Some (Wrapped ErrInternal ''sql: database is closed''),
          \<lparr>conn = Some \<lparr>closed = True, content = users_store []\<rparr>\<rparr>)
   \<and> GetById (ref_runtime users_catalogue)
         \<lparr>conn = Some \<lparr>closed = True, content = users_store []\<rparr>\<rparr>
         (Collection ''users'') ''u1'' (VPtr (Some (VStruct example_user_fields)))
       = (Some (Wrapped ErrInternal ''sql: database is closed''),
          VPtr (Some (VStruct example_user_fields)),
          \<lparr>conn = Some \<lparr>closed = True, content = users_store []\<rparr>\<rparr>)
   \<and> GetOne (ref_runtime users_catalogue)
         \<lparr>conn = Some \<lparr>closed = True, content = users_store []\<rparr>\<rparr>
         (Collection ''users'') [(''role'', VString ''admin'')]
         (VPtr (Some (VStruct example_user_fields)))
       = (Some (Wrapped ErrInternal ''sql: database is closed''),
          VPtr (Some (VStruct example_user_fields)),
          \<lparr>conn = Some \<lparr>closed = True, content = users_store []\<rparr>\<rparr>)
   \<and> GetAllByCondition (ref_runtime users_catalogue)
         \<lparr>conn = Some \<lparr>closed = True, content = users_store []\<rparr>\<rparr>
         (Collection ''users'') [(''role'', VString ''admin'')] user_slice
       = (Some (Wrapped ErrInternal ''sql: database is closed''), user_slice,
          \<lparr>conn = Some \<lparr>closed = True, content = users_store []\<rparr>\<rparr>)
   \<and> DeleteById (ref_runtime users_catalogue)
         \<lparr>conn = Some \<lparr>closed = True, content = users_store []\<rparr>\<rparr>
         (Collection ''users'') ''u1''
       = (Some (Wrapped ErrInternal ''sql: database is closed''),
          \<lparr>conn = Some \<lparr>closed = True, content = users_store []\<rparr>\<rparr>)
   \<and> Count (ref_runtime users_catalogue)
         \<lparr>conn = Some \<lparr>closed = True, content = users_store []\<rparr>\<rparr>
         (Collection ''users'') [(''role'', VString ''admin'')]
       = (Inl (Wrapped ErrInternal ''sql: database is closed''),
          \<lparr>conn = Some \<lparr>closed = True, content = users_store []\<rparr>\<rparr>)
   \<and> GetById (ref_runtime users_catalogue)
         \<lparr>conn = Some \<lparr>closed = True, content = users_store []\<rparr>\<rparr>
         (Collection ''users'') ''u1'' (VInt 0)
       = (Some (Wrapped ErrInvalidInput ''result must be a non-nil pointer''), VInt 0,
          \<lparr>conn = Some \<lparr>closed = True, content = users_store []\<rparr>\<rparr>)"
proof -
  let ?rt = "ref_runtime users_catalogue"
  let ?flt = "[(''role'', VString ''admin'')]"
  let ?cd = "\<lparr>conn = Some \<lparr>closed = True, content = users_store []\<rparr>\<rparr>"
  have c: "conn (open_db (users_store [])) = Some \<lparr>closed = False, content = users_store []\<rparr>"
    by (simp add: open_db_def)
  note t = use_after_close[OF c, where rt = ?rt and c = "Collection ''users''"
            and data = "VStruct example_user_fields" and fs = example_user_fields
            and now = "Tm 7 0" and ident = "''u1''" and flds = example_user_fields
            and flt = ?flt and results = user_slice and result = "VInt 0"
            and ?e3.0 = "Wrapped ErrInvalidInput ''result must be a non-nil pointer''"]
  from t have cl: "Close ?rt (open_db (users_store [])) = (None, ?cd)"
    by (simp add: open_db_def ref_runtime_def)
  then have s: "snd (Close ?rt (open_db (users_store []))) = ?cd"
    by simp
  have i: "Indirect (VStruct example_user_fields) = Some (VStruct example_user_fields)"
    by (simp add: Indirect_def)
  have v: "valid_results user_slice"
    by (simp add: valid_results_def user_slice_def example_user_fields_def)
  have w: "validateResultType (VInt 0)
             = Some (Wrapped ErrInvalidInput ''result must be a non-nil pointer'')"
    by (simp add: validateResultType_def)
  from t[unfolded s] i v w c cl show ?thesis by simp
qed

text \<open>
  The claim as stated fails: after \<open>Close\<close>, \<open>Create\<close> of a well-formed record and
  \<open>DeleteById\<close> return Internal, which is the only taxonomy kind of that error.
\<close>

theorem use_after_close_counterexample:
  "fst (Create (ref_runtime users_catalogue)
          (snd (Close (ref_runtime users_catalogue) (open_db (users_store []))))
          (Collection ''users'') (VStruct example_user_fields))
     = Inl (Wrapped ErrInternal ''sql: database is closed'')
   \<and> fst (DeleteById (ref_runtime users_catalogue)
          (snd (Close (ref_runtime users_catalogue) (open_db (users_store []))))
          (Collection ''users'') ''u1'')
     = Some (Wrapped ErrInternal ''sql: database is closed'')
   \<and> \<not> Is (Wrapped ErrInternal ''sql: database is closed'') ErrDatabaseConnection
   \<and> taxonomy_kinds (Wrapped ErrInternal ''sql: database is closed'') = [ErrInternal]"
  by (simp add: Create_def DeleteById_def Close_def sql_Close_def open_db_def GetConn_def
        ExecContext_def extractFieldsForInsert_def Indirect_def exec_error_def
        taxonomy_kinds_def taxonomy_def ref_runtime_def Let_def split_beta)


section \<open>Errors of the document collection\<close>

text \<open>
  C3, at the inputs where it fails. On a connected document store, \<open>Create\<close> of a
  value that is not a struct, of a struct with an empty \<open>ID\<close>, of a struct without an
  \<open>ID\<close> field and of a struct whose \<open>ID\<close> is not a string each return an error
  made on the spot, and so does \<open>GetById\<close> of a document that is not there. Such an
  error wraps none of the taxonomy kinds. The relational \<open>Create\<close> wraps InvalidInput
  for the same non-struct input, and the document \<open>GetOne\<close> returns the NotFound
  sentinel when nothing matches.
\<close>

theorem firestore_errors_outside_taxonomy:
  "Firestore_Create fs \<lparr>client = Some cl\<rparr> fc (VInt 42)
     = (Inl (Adhoc ''data is not a struct''), \<lparr>client = Some cl\<rparr>)
   \<and> Firestore_Create fs \<lparr>client = Some cl\<rparr> fc (VStruct (note_fields [] ''milk''))
     = (Inl (Adhoc ''ID field cannot be empty''), \<lparr>client = Some cl\<rparr>)
   \<and> Firestore_Create fs \<lparr>client = Some cl\<rparr> fc
         (VStruct [Field ''Title'' [] ''title'' (VString ''milk'')])
     = (Inl (Adhoc ''struct does not have an ID field''), \<lparr>client = Some cl\<rparr>)
   \<and> Firestore_Create fs \<lparr>client = Some cl\<rparr> fc
         (VStruct [Field ''ID'' [] ''-'' (VInt 7), Field ''Title'' [] ''title'' (VString ''milk'')])
     = (Inl (Adhoc ''ID field must be a string''), \<lparr>client = Some cl\<rparr>)
   \<and> Firestore_GetById ref_firestore \<lparr>client = Some notes_docs\<rparr> \<lparr>collectionName = ''notes''\<rparr>
         ''nobody'' (VPtr (Some (VStruct (note_fields [] []))))
     = (Some (Adhoc ''document nobody not found''), VPtr (Some (VStruct (note_fields [] []))))
   \<and> taxonomy_kinds (Adhoc msg) = []
   \<and> fst (Create rt (open_db st) c (VInt 42))
     = Inl (Wrapped ErrInvalidInput ''data must be a struct or pointer to struct'')
   \<and> taxonomy_kinds (Wrapped ErrInvalidInput ''data must be a struct or pointer to struct'')
     = [ErrInvalidInput]
   \<and> Firestore_GetOne ref_firestore \<lparr>client = Some notes_docs\<rparr> \<lparr>collectionName = ''notes''\<rparr>
         [(''title'', VString ''eggs'')] (VPtr (Some (VStruct (note_fields [] []))))
     = (Some (Sentinel ErrNotFound), VPtr (Some (VStruct (note_fields [] []))))"
  by (simp add: Firestore_Create_def Firestore_GetById_def Firestore_GetOne_def Indirect_def
        FieldByName_def note_fields_def ref_firestore_def notes_docs_def at_doc_def
        taxonomy_kinds_def taxonomy_def Create_def open_db_def GetConn_def
        extractFieldsForInsert_def iter_Next_def)


section \<open>Create followed by \<open>GetById\<close>\<close>

lemma Zero_field_sel:
  "Name (Zero_field f) = Name f" "db_tag (Zero_field f) = db_tag f"
  "firestore_tag (Zero_field f) = firestore_tag f" "Val (Zero_field f) = Zero (Val f)"
  by (cases f, simp)+









end
